theory Spec2Isabelle
  imports Main "HOL-Library.AList" "HOL-Library.Word"
begin

section \<open>Go values used by the client\<close>

text \<open>
  The package \<^verbatim>\<open>wasabi\<close> (files \<^verbatim>\<open>client.go\<close>, \<^verbatim>\<open>structs.go\<close> and the file of
  method constants) is embedded function by function. Go strings are byte strings
  (\<^typ>\<open>string\<close>), Go's \<^verbatim>\<open>int\<close> is an \<^typ>\<open>int\<close> (the code only compares ports and
  carries amounts, it never computes with them), a pointer or interface that may be
  \<^verbatim>\<open>nil\<close> is an \<^typ>\<open>'a option\<close>, and a Go map or slice, which may be \<^verbatim>\<open>nil\<close> too,
  is an optional list: \<open>None\<close> is the nil map, \<open>Some []\<close> the empty one that a
  composite literal such as \<^verbatim>\<open>map[string]string{}\<close> creates. The list of a map is
  the order in which one \<^verbatim>\<open>range\<close> loop visits the entries; Go leaves that order
  open, so every statement below holds for every list.
\<close>

subsection \<open>Errors\<close>

text \<open>
  \<^verbatim>\<open>RPCErrorCode\<close> and its constants, \<^verbatim>\<open>RPCError\<close> (a nil \<^verbatim>\<open>Data\<close> is
  \<open>JNull\<close>), and the values of Go's \<^verbatim>\<open>error\<close>
  interface that the package can return: \<open>Errorf\<close> is \<^verbatim>\<open>fmt.Errorf\<close> with a plain
  message, \<open>Wrapf\<close> is \<^verbatim>\<open>fmt.Errorf\<close> with \<^verbatim>\<open>%w\<close> (the prefix, then the wrapped
  error), \<open>StdError\<close> is an error of the standard library (encoding/json, net/http,
  crypto/rand), \<open>RPCErr\<close> is a \<^verbatim>\<open>*RPCError\<close> and \<open>RPCErrNullResult\<close> is the
  package's sentinel \<^verbatim>\<open>errors.New("result is null")\<close>.
\<close>

type_synonym float64 = "64 word"

text \<open>
  What \<^verbatim>\<open>encoding/json\<close> stores into an \<^verbatim>\<open>interface{}\<close>: nil, a bool, a float64
  (here its IEEE-754 bit pattern), a string, a slice or a map of such values.
\<close>

datatype json =
    JNull
  | JBool bool
  | JNumber float64
  | JString string
  | JArray "json list"
  | JObject "(string \<times> json) list"

type_synonym RPCErrorCode = int

definition E_PARSE :: RPCErrorCode where "E_PARSE = - 32700"
definition E_INVALID_REQ :: RPCErrorCode where "E_INVALID_REQ = - 32600"
definition E_NO_METHOD :: RPCErrorCode where "E_NO_METHOD = - 32601"
definition E_BAD_PARAMS :: RPCErrorCode where "E_BAD_PARAMS = - 32602"
definition E_INTERNAL :: RPCErrorCode where "E_INTERNAL = - 32603"
definition E_SERVER :: RPCErrorCode where "E_SERVER = - 32000"

record RPCError =
  Code :: RPCErrorCode
  Message :: string
  Data :: json

datatype error =
    Errorf string
  | Wrapf string error
  | StdError string
  | RPCErr RPCError
  | RPCErrNullResult

text \<open>\<^verbatim>\<open>(*RPCError).Error\<close>.\<close>

definition RPCError_Error :: "RPCError \<Rightarrow> string" where
  "RPCError_Error e = Message e"

text \<open>
  \<^verbatim>\<open>errors.Is(err, RPCErrNullResult)\<close>: the sentinel itself, or an error that wraps
  it. No other error type of the package has an \<^verbatim>\<open>Is\<close> or \<^verbatim>\<open>Unwrap\<close> method, and
  an error of the standard library is never the package's sentinel.
\<close>

fun errors_Is_NullResult :: "error \<Rightarrow> bool" where
  "errors_Is_NullResult RPCErrNullResult = True"
| "errors_Is_NullResult (Wrapf s e) = errors_Is_NullResult e"
| "errors_Is_NullResult (Errorf s) = False"
| "errors_Is_NullResult (StdError s) = False"
| "errors_Is_NullResult (RPCErr e) = False"

subsection \<open>Formatting and encoding helpers of the standard library\<close>

text \<open>The verb \<^verbatim>\<open>%d\<close> (and \<^verbatim>\<open>%v\<close> on an int): decimal digits, with a minus sign.\<close>

definition digit_char :: "nat \<Rightarrow> char" where
  "digit_char d = ''0123456789'' ! (d mod 10)"

fun decimal :: "nat \<Rightarrow> string" where
  "decimal n = (if n < 10 then [digit_char n] else decimal (n div 10) @ [digit_char (n mod 10)])"

declare decimal.simps [simp del]

definition format_int :: "int \<Rightarrow> string" where
  "format_int i = (if i < 0 then CHR ''-'' # decimal (nat (- i)) else decimal (nat i))"

text \<open>\<^verbatim>\<open>strings.ContainsAny(s, chars)\<close> for ASCII \<^verbatim>\<open>chars\<close>.\<close>

definition ContainsAny :: "string \<Rightarrow> string \<Rightarrow> bool" where
  "ContainsAny s chars = list_ex (\<lambda>c. List.member chars c) s"

text \<open>\<^verbatim>\<open>base64.StdEncoding.EncodeToString\<close>: the standard alphabet, padded with \<^verbatim>\<open>=\<close>.\<close>

definition encodeStd :: string where
  "encodeStd = ''ABCDEFGHIJKLMNOPQRSTUVWXYZabcdefghijklmnopqrstuvwxyz0123456789+/''"

definition b64 :: "nat \<Rightarrow> char" where
  "b64 n = encodeStd ! (n mod 64)"

fun EncodeToString :: "string \<Rightarrow> string" where
  "EncodeToString [] = []"
| "EncodeToString [a] =
     (let x = of_char a :: nat
      in [b64 (x div 4), b64 ((x mod 4) * 16), CHR ''='', CHR ''=''])"
| "EncodeToString [a, b] =
     (let x = of_char a :: nat; y = of_char b :: nat
      in [b64 (x div 4), b64 ((x mod 4) * 16 + y div 16), b64 ((y mod 16) * 4), CHR ''=''])"
| "EncodeToString (a # b # c # rest) =
     (let x = of_char a :: nat; y = of_char b :: nat; z = of_char c :: nat
      in [b64 (x div 4), b64 ((x mod 4) * 16 + y div 16),
          b64 ((y mod 16) * 4 + z div 64), b64 (z mod 64)] @ EncodeToString rest)"

section \<open>Configuration (structs.go)\<close>

text \<open>
  \<^verbatim>\<open>Config\<close>. The field \<open>Transport\<close> is an \<^verbatim>\<open>http.RoundTripper\<close>, an interface
  value that may be nil; its type \<open>'t\<close> is fixed with the client below.
\<close>

record 't Config =
  Host :: string
  Port :: int
  CustomHeaders :: "(string \<times> string) list option"
  Transport :: "'t option"
  RpcUser :: string
  RpcPassword :: string

text \<open>
  The loop of the \<^verbatim>\<open>case c.CustomHeaders != nil\<close> arm: it returns at the first entry,
  in iteration order, with an empty key, an empty value or the key
  \<^verbatim>\<open>Authorization\<close>.
\<close>

fun check_headers :: "(string \<times> string) list \<Rightarrow> error option" where
  "check_headers [] = None"
| "check_headers ((k, v) # kvs) =
     (if k = [] then Some (Errorf ''custom header key must not be empty'')
      else if v = [] then Some (Errorf ''custom header value must not be empty'')
      else if k = ''Authorization'' then Some (Errorf ''custom header key must not be Authorization'')
      else check_headers kvs)"

text \<open>
  \<^verbatim>\<open>(*Config).Validate\<close>. The receiver is a pointer, so the result is the error
  together with the config as the call leaves it. The body is ONE Go \<^verbatim>\<open>switch\<close>
  without \<^verbatim>\<open>fallthrough\<close>: the first arm whose condition holds runs, and then the
  function returns \<^verbatim>\<open>nil\<close> unless that arm returned an error. The arms are kept in
  the source's order, the last one with its inner test of \<^verbatim>\<open>c.CustomHeaders\<close>.
\<close>

definition Validate :: "'t Config \<Rightarrow> error option \<times> 't Config" where
  "Validate c =
     (if Host c = [] then (Some (Errorf ''host must not be empty''), c)
      else if ContainsAny (Host c) ''/:'' then (Some (Errorf ''host must not contain / or :''), c)
      else if Port c = 0 then (None, c\<lparr>Port := 37128\<rparr>)
      else if Port c < 0 \<or> Port c > 65535 then
        (Some (Errorf ''port must be between 0 and 65535''), c)
      else if RpcUser c \<noteq> [] \<and> RpcPassword c = [] then
        (Some (Errorf ''rpc password must not be empty if rpc user is set''), c)
      else if RpcUser c = [] \<and> RpcPassword c \<noteq> [] then
        (Some (Errorf ''rpc user must not be empty if rpc password is set''), c)
      else if CustomHeaders c \<noteq> None then
        (case CustomHeaders c of
           Some m \<Rightarrow> (check_headers m, c)
         | None \<Rightarrow> (None, c))
      else if RpcUser c \<noteq> [] \<and> RpcPassword c \<noteq> [] then
        (let basicAuth = EncodeToString (RpcUser c @ '':'' @ RpcPassword c)
         in case CustomHeaders c of
              Some m \<Rightarrow>
                (None, c\<lparr>CustomHeaders := Some (AList.update ''Authorization'' (''Basic '' @ basicAuth) m)\<rparr>)
            | None \<Rightarrow>
                (None, c\<lparr>CustomHeaders := Some [(''Authorization'', ''Basic '' @ basicAuth)]\<rparr>))
      else (None, c))"


section \<open>Request and response structs (structs.go)\<close>

text \<open>
  The string-typed enumerations \<^verbatim>\<open>TorStatus\<close>, \<^verbatim>\<open>BackendStatus\<close>, \<^verbatim>\<open>BitcoinNetwork\<close>,
  \<^verbatim>\<open>WalletState\<close>, \<^verbatim>\<open>CoinJoinStatus\<close> and \<^verbatim>\<open>PaymentStatus\<close> are strings; a
  \<^verbatim>\<open>time.Time\<close> is the three words of its struct (\<open>loc\<close> a pointer). Each struct
  comes with its zero value, written \<^verbatim>\<open>T{}\<close> in the source.
\<close>

type_synonym TorStatus = string
type_synonym BackendStatus = string
type_synonym BitcoinNetwork = string
type_synonym WalletState = string
type_synonym CoinJoinStatus = string
type_synonym PaymentStatus = string

record Time =
  wall :: "64 word"
  ext :: "64 word"
  loc :: "nat option"

definition Time_zero :: Time where
  "Time_zero = \<lparr>wall = 0, ext = 0, loc = None\<rparr>"

record BitcoinPeer =
  IsConnected :: bool
  LastSeen :: Time
  Endpoint :: string
  UserAgent :: string

record GetStatusResponse =
  TorStatus :: TorStatus
  BackendStatus :: BackendStatus
  BestBlockchainHeight :: "64 word"
  BestBlockchainHash :: string
  FiltersCount :: int
  FiltersLeft :: int
  Network :: BitcoinNetwork
  ExchangeRate :: float64
  Peers :: "BitcoinPeer list option"

definition GetStatusResponse_zero :: GetStatusResponse where
  "GetStatusResponse_zero =
     \<lparr>TorStatus = [], BackendStatus = [], BestBlockchainHeight = 0, BestBlockchainHash = [],
      FiltersCount = 0, FiltersLeft = 0, Network = [], ExchangeRate = 0, Peers = None\<rparr>"

record ListCoinsResponse =
  TxID :: string
  Index :: int
  Amount :: int
  AnonymityScore :: float64
  Confirmed :: bool
  Confirmations :: int
  KeyPath :: string
  Address :: string
  SpentBy :: "string option"
  Label :: string
  ExcludedFromCoinJoin :: bool

record WalletInfoAccount =
  Name :: string
  PublicKey :: string
  KeyPath :: string

record GetWalletInfoResponse =
  WalletName :: string
  WalletFile :: string
  State :: WalletState
  MasterKeyFingerprint :: string
  AnonScoreTarget :: int
  IsWatchOnly :: bool
  IsHardwareWallet :: bool
  IsAutoCoinJoin :: bool
  IsRedCoinIsolation :: bool
  Accounts :: "WalletInfoAccount list option"
  Balance :: int
  CoinJoinStatus :: CoinJoinStatus

definition GetWalletInfoResponse_zero :: GetWalletInfoResponse where
  "GetWalletInfoResponse_zero =
     \<lparr>WalletName = [], WalletFile = [], State = [], MasterKeyFingerprint = [],
      AnonScoreTarget = 0, IsWatchOnly = False, IsHardwareWallet = False,
      IsAutoCoinJoin = False, IsRedCoinIsolation = False, Accounts = None, Balance = 0,
      CoinJoinStatus = []\<rparr>"

record GetNewAddressResponse =
  Address :: string
  KeyPath :: string
  Label :: string
  PublicKey :: string
  ScriptPubKey :: string

definition GetNewAddressResponse_zero :: GetNewAddressResponse where
  "GetNewAddressResponse_zero =
     \<lparr>GetNewAddressResponse.Address = [], GetNewAddressResponse.KeyPath = [],
      GetNewAddressResponse.Label = [], GetNewAddressResponse.PublicKey = [],
      GetNewAddressResponse.ScriptPubKey = []\<rparr>"

record SendResponse =
  TransactionID :: string
  Transaction :: string

definition SendResponse_zero :: SendResponse where
  "SendResponse_zero = \<lparr>SendResponse.TransactionID = [], Transaction = []\<rparr>"

record Payment =
  SendTo :: string
  Amount :: int
  Label :: string

record Coin =
  TransactionID :: string
  Index :: int

record Transaction =
  DateTime :: Time
  Height :: int
  Amount :: int
  Label :: string
  Tx :: string
  IsLikelyCoinJoin :: bool

record GeneratedKey =
  FullKeyPath :: string
  Internal :: bool
  KeyState :: int
  Label :: string
  ScriptPubKey :: string
  PubKey :: string
  PubKeyHash :: string
  Address :: string

text \<open>\<^verbatim>\<open>GetFeeRatesResponse\<close> is a map type: its zero value is the nil map.\<close>

type_synonym GetFeeRatesResponse = "(string \<times> int) list option"

record ListWalletsResponseItem =
  Name :: string

record PaymentInCoinJoinStateHistoryItem =
  Status :: PaymentStatus
  Round :: int
  TxID :: string

record ListPaymentsInCoinJoinResponseItem =
  ID :: string
  Amount :: int
  Destination :: string
  State :: "PaymentInCoinJoinStateHistoryItem list option"
  Address :: string


section \<open>Method names\<close>

type_synonym Method = string

definition MethodGetStatus :: Method where "MethodGetStatus = ''getstatus''"
definition MethodCreateWallet :: Method where "MethodCreateWallet = ''createwallet''"
definition MethodLoadWallet :: Method where "MethodLoadWallet = ''loadwallet''"
definition MethodListCoins :: Method where "MethodListCoins = ''listcoins''"
definition MethodListUnspentCoins :: Method where "MethodListUnspentCoins = ''listunspentcoins''"
definition MethodGetWalletInfo :: Method where "MethodGetWalletInfo = ''getwalletinfo''"
definition MethodGetNewAddress :: Method where "MethodGetNewAddress = ''getnewaddress''"
definition MethodSend :: Method where "MethodSend = ''send''"
definition MethodBuild :: Method where "MethodBuild = ''build''"
definition MethodBroadcast :: Method where "MethodBroadcast = ''broadcast''"
definition MethodGetHistory :: Method where "MethodGetHistory = ''gethistory''"
definition MethodListKeys :: Method where "MethodListKeys = ''listkeys''"
definition MethodStartCoinJoin :: Method where "MethodStartCoinJoin = ''startcoinjoin''"
definition MethodStartCoinJoinSweep :: Method where "MethodStartCoinJoinSweep = ''startcoinjoinsweep''"
definition MethodStopCoinJoin :: Method where "MethodStopCoinJoin = ''stopcoinjoin''"
definition MethodStop :: Method where "MethodStop = ''stop''"
definition MethodGetFeeRates :: Method where "MethodGetFeeRates = ''getfeerates''"
definition MethodListWallets :: Method where "MethodListWallets = ''listwallets''"
definition MethodExcludeFromCoinJoin :: Method where "MethodExcludeFromCoinJoin = ''excludefromcoinjoin''"
definition MethodRecoverWallet :: Method where "MethodRecoverWallet = ''recoverwallet''"
definition MethodBuildUnsafeTransaction :: Method where
  "MethodBuildUnsafeTransaction = ''buildunsafetransaction''"
definition MethodPayInCoinJoin :: Method where "MethodPayInCoinJoin = ''payincoinjoin''"
definition MethodListPaymentsInCoinJoin :: Method where
  "MethodListPaymentsInCoinJoin = ''listpaymentsincoinjoin''"
definition MethodCancelPaymentInCoinJoin :: Method where
  "MethodCancelPaymentInCoinJoin = ''cancelpaymentincoinjoin''"
definition MethodCancelTransaction :: Method where "MethodCancelTransaction = ''canceltransaction''"
definition MethodSpeedUpTransaction :: Method where "MethodSpeedUpTransaction = ''speeduptransaction''"

text \<open>\<^verbatim>\<open>Method.String\<close>.\<close>

definition Method_String :: "Method \<Rightarrow> string" where
  "Method_String m = m"

section \<open>The envelopes and the standard library (client.go)\<close>

text \<open>
  The \<^verbatim>\<open>interface{}\<close> values that the methods pass as \<^verbatim>\<open>params\<close>: nil, a
  \<^verbatim>\<open>[]interface{}\<close> of strings, ints and bools, or a \<^verbatim>\<open>map[string]interface{}\<close>
  literal that also holds the payments and the coins.
\<close>

datatype any =
    AnyNil
  | AnyString string
  | AnyInt int
  | AnyBool bool
  | AnyPayments "Payment list option"
  | AnyCoins "Coin list option"
  | AnySlice "any list"
  | AnyMap "(string \<times> any) list"

text \<open>
  \<^verbatim>\<open>clientRequest\<close> and \<^verbatim>\<open>clientResponse\<close>. \<open>Result\<close> and \<open>Error\<close> are
  \<^verbatim>\<open>*json.RawMessage\<close>: the raw bytes of the member, or nil. The decoder of
  \<^verbatim>\<open>encoding/json\<close> sets a pointer to nil both when the member is missing and when it
  is the literal \<^verbatim>\<open>null\<close>, so \<open>None\<close> stands for both.
\<close>

record clientRequest =
  Version :: string
  Method :: string
  Params :: any
  Id :: "64 word"

record clientResponse =
  Version :: string
  Result :: "string option"
  Error :: "string option"

text \<open>
  \<^verbatim>\<open>http.Request\<close>, \<^verbatim>\<open>http.Response\<close> and \<^verbatim>\<open>http.Client\<close>, as far as the package
  uses them. \<open>URL\<close> is the string handed to \<^verbatim>\<open>http.NewRequest\<close>. A client
  whose transport is nil uses the default transport; \<^verbatim>\<open>http.DefaultClient\<close> is such
  a client.
\<close>

record Request =
  ReqMethod :: string
  URL :: string
  Header :: "(string \<times> string list) list"
  ReqBody :: string

record Response =
  StatusCode :: int
  Body :: string

record 't http_Client =
  ClientTransport :: "'t option"

definition DefaultClient :: "'t http_Client" where
  "DefaultClient = \<lparr>ClientTransport = None\<rparr>"

text \<open>
  The world outside the process: \<open>sent\<close> records, in order, every request handed
  to \<^verbatim>\<open>httpClient.Do\<close>; \<open>outside\<close> is the state of the network, the daemon and the
  random source.
\<close>

record 's world =
  sent :: "Request list"
  outside :: "'s"

text \<open>
  The functions of the standard library whose results the package only passes on.
  They are parameters: every theorem holds whatever they return. \<open>rand_Int\<close> is
  \<^verbatim>\<open>rand.Int(rand.Reader, max)\<close>, \<open>json_Marshal\<close> is \<^verbatim>\<open>json.Marshal\<close> of a request,
  \<open>url_error\<close> is the error, if any, with which \<^verbatim>\<open>http.NewRequest\<close> refuses a
  URL, \<open>CanonicalMIMEHeaderKey\<close> is the key under which \<^verbatim>\<open>Header.Set\<close> stores, and
  \<open>RoundTrip\<close> is what \<^verbatim>\<open>(*http.Client).Do\<close> returns for a request: an error, or
  the response once its header has arrived.
\<close>

record ('t, 's) stdlib =
  rand_Int :: "nat \<Rightarrow> 's \<Rightarrow> (string + nat) \<times> 's"
  json_Marshal :: "clientRequest \<Rightarrow> string + string"
  url_error :: "string \<Rightarrow> string option"
  CanonicalMIMEHeaderKey :: "string \<Rightarrow> string"
  RoundTrip :: "'t http_Client \<Rightarrow> Request \<Rightarrow> 's \<Rightarrow> (string + Response) \<times> 's"

text \<open>
  The decoding side of \<^verbatim>\<open>encoding/json\<close>: \<open>decode_envelope\<close> is
  \<^verbatim>\<open>json.NewDecoder(r).Decode(&c)\<close> on a body, \<open>unmarshal_RPCError\<close> is
  \<^verbatim>\<open>json.Unmarshal\<close> into an \<^verbatim>\<open>*RPCError\<close>. \<^verbatim>\<open>json.Unmarshal\<close> into a reply of type
  \<open>'a\<close> is a function \<open>string \<Rightarrow> 'a \<Rightarrow> string option \<times> 'a\<close>: from the raw bytes
  and the value the target holds to the error, if any, and the value the target
  holds afterwards (which may be partly filled when there is an error).
\<close>

record codec =
  decode_envelope :: "string \<Rightarrow> string + clientResponse"
  unmarshal_RPCError :: "string \<Rightarrow> string + RPCError"

type_synonym 'a unmarshal = "string \<Rightarrow> 'a \<Rightarrow> string option \<times> 'a"

text \<open>\<^verbatim>\<open>http.NewRequest\<close>, \<^verbatim>\<open>req.Header.Set\<close> and \<^verbatim>\<open>c.httpClient.Do\<close>.\<close>

definition http_NewRequest :: "('t, 's) stdlib \<Rightarrow> string \<Rightarrow> string \<Rightarrow> string \<Rightarrow> error + Request" where
  "http_NewRequest lib method url body =
     (case url_error lib url of
        Some e \<Rightarrow> Inl (StdError e)
      | None \<Rightarrow> Inr \<lparr>ReqMethod = method, URL = url, Header = [], ReqBody = body\<rparr>)"

definition Header_Set :: "('t, 's) stdlib \<Rightarrow> Request \<Rightarrow> string \<times> string \<Rightarrow> Request" where
  "Header_Set lib req kv =
     req\<lparr>Header := AList.update (CanonicalMIMEHeaderKey lib (fst kv)) [snd kv] (Header req)\<rparr>"

definition httpClient_Do ::
  "('t, 's) stdlib \<Rightarrow> 't http_Client \<Rightarrow> Request \<Rightarrow> 's world \<Rightarrow> (error + Response) \<times> 's world" where
  "httpClient_Do lib hc req w =
     (case RoundTrip lib hc req (outside w) of
        (Inl e, s) \<Rightarrow> (Inl (StdError e), \<lparr>sent = sent w @ [req], outside = s\<rparr>)
      | (Inr resp, s) \<Rightarrow> (Inr resp, \<lparr>sent = sent w @ [req], outside = s\<rparr>))"

text \<open>
  \<^verbatim>\<open>json.Unmarshal(data, reply)\<close> on a reply that is nil (the methods without a
  payload pass nil) or a pointer to a variable that holds a value.
\<close>

definition json_Unmarshal :: "'a unmarshal \<Rightarrow> string \<Rightarrow> 'a option \<Rightarrow> error option \<times> 'a option" where
  "json_Unmarshal unm data reply =
     (case reply of
        None \<Rightarrow> (Some (StdError ''json: Unmarshal(nil)''), None)
      | Some v \<Rightarrow>
          (case unm data v of
             (Some e, v') \<Rightarrow> (Some (StdError e), Some v')
           | (None, v') \<Rightarrow> (None, Some v')))"

section \<open>The pipeline (client.go)\<close>

text \<open>\<^verbatim>\<open>encodeClientRequest\<close>. \<^verbatim>\<open>math.MaxInt64\<close> is \<open>2 ^ 63 - 1\<close>.\<close>

definition encodeClientRequest ::
  "('t, 's) stdlib \<Rightarrow> string \<Rightarrow> any \<Rightarrow> 's world \<Rightarrow> (error + string) \<times> 's world" where
  "encodeClientRequest lib method args w =
     (case rand_Int lib (2 ^ 63 - 1) (outside w) of
        (Inl e, s) \<Rightarrow>
          (Inl (Wrapf ''failed to generate request id: '' (StdError e)), w\<lparr>outside := s\<rparr>)
      | (Inr val, s) \<Rightarrow>
          (case json_Marshal lib
                  \<lparr>clientRequest.Version = ''2.0'', Method = method, Params = args,
                   Id = word_of_nat val\<rparr> of
             Inl e \<Rightarrow> (Inl (StdError e), w\<lparr>outside := s\<rparr>)
           | Inr payload \<Rightarrow> (Inr payload, w\<lparr>outside := s\<rparr>)))"

text \<open>
  \<^verbatim>\<open>decodeClientResponse\<close>: the error, and the value the reply holds afterwards.
\<close>

definition decodeClientResponse ::
  "codec \<Rightarrow> 'a unmarshal \<Rightarrow> string \<Rightarrow> 'a option \<Rightarrow> error option \<times> 'a option" where
  "decodeClientResponse dec unm r reply =
     (case decode_envelope dec r of
        Inl e \<Rightarrow> (Some (StdError e), reply)
      | Inr c \<Rightarrow>
          (case Error c of
             Some raw \<Rightarrow>
               (case unmarshal_RPCError dec raw of
                  Inl e \<Rightarrow> (Some (RPCErr \<lparr>Code = E_SERVER, Message = raw, Data = JNull\<rparr>), reply)
                | Inr jsonErr \<Rightarrow> (Some (RPCErr jsonErr), reply))
           | None \<Rightarrow>
               (case Result c of
                  None \<Rightarrow> (Some RPCErrNullResult, reply)
                | Some raw \<Rightarrow> json_Unmarshal unm raw reply)))"

text \<open>
  The struct \<^verbatim>\<open>client\<close>. Its mutex is left out: the embedding runs one call at a
  time, where \<^verbatim>\<open>Lock\<close> and the deferred \<^verbatim>\<open>Unlock\<close> change nothing.
\<close>

record 't client =
  httpClient :: "'t http_Client"
  host :: string
  port :: int
  headers :: "(string \<times> string) list option"

text \<open>
  \<^verbatim>\<open>NewClient\<close>. The config is passed by value, so \<^verbatim>\<open>Validate\<close> works on the
  function's own copy, and the client reads that copy afterwards.
\<close>

definition NewClient :: "'t Config \<Rightarrow> error + 't client" where
  "NewClient cfg =
     (case Validate cfg of
        (Some err, cfg') \<Rightarrow> Inl (Wrapf ''invalid config: '' err)
      | (None, cfg') \<Rightarrow>
          Inr \<lparr>httpClient =
                 (if Transport cfg' = None then DefaultClient
                  else \<lparr>ClientTransport = Transport cfg'\<rparr>),
               host = Host cfg', port = Port cfg', headers = CustomHeaders cfg'\<rparr>)"

text \<open>
  \<^verbatim>\<open>(*client).do\<close>: the error, the value \<open>out\<close> holds afterwards, and the world
  afterwards. The URL is \<^verbatim>\<open>fmt.Sprintf("http://%s:%d/%s", ...)\<close>.
\<close>

definition do ::
  "('t, 's) stdlib \<Rightarrow> codec \<Rightarrow> 'a unmarshal \<Rightarrow> 't client \<Rightarrow> Method \<Rightarrow> string \<Rightarrow> any \<Rightarrow> 'a option
     \<Rightarrow> 's world \<Rightarrow> (error option \<times> 'a option) \<times> 's world" where
  "do lib dec unm c method targetWalletName inp out w =
     (case encodeClientRequest lib (Method_String method) inp w of
        (Inl err, w1) \<Rightarrow> ((Some err, out), w1)
      | (Inr payload, w1) \<Rightarrow>
          (case http_NewRequest lib ''POST''
                  (''http://'' @ host c @ '':'' @ format_int (port c) @ ''/'' @ targetWalletName)
                  payload of
             Inl err \<Rightarrow> ((Some err, out), w1)
           | Inr req0 \<Rightarrow>
               (let req = (case headers c of
                             None \<Rightarrow> req0
                           | Some hs \<Rightarrow> foldl (Header_Set lib) req0 hs)
                in case httpClient_Do lib (httpClient c) req w1 of
                     (Inl err, w2) \<Rightarrow> ((Some err, out), w2)
                   | (Inr resp, w2) \<Rightarrow>
                       if StatusCode resp \<noteq> 200 then
                         ((Some (Errorf (''http status '' @ format_int (StatusCode resp))), out), w2)
                       else
                         (case decodeClientResponse dec unm (Body resp) out of
                            (Some err, out') \<Rightarrow>
                              if errors_Is_NullResult err then ((None, out'), w2)
                              else ((Some err, out'), w2)
                          | (None, out') \<Rightarrow> ((None, out'), w2)))))"


section \<open>The methods of the client (client.go)\<close>

text \<open>
  \<^verbatim>\<open>json.Unmarshal\<close> at each type that a method decodes its result into.
\<close>

record unmarshalers =
  into_GetStatusResponse :: "GetStatusResponse unmarshal"
  into_string :: "string unmarshal"
  into_ListCoinsResponses :: "ListCoinsResponse list option unmarshal"
  into_GetWalletInfoResponse :: "GetWalletInfoResponse unmarshal"
  into_GetNewAddressResponse :: "GetNewAddressResponse unmarshal"
  into_SendResponse :: "SendResponse unmarshal"
  into_Transactions :: "Transaction list option unmarshal"
  into_GeneratedKeys :: "GeneratedKey list option unmarshal"
  into_GetFeeRatesResponse :: "GetFeeRatesResponse unmarshal"
  into_ListWalletsResponseItems :: "ListWalletsResponseItem list option unmarshal"
  into_ListPaymentsInCoinJoinResponseItems :: "ListPaymentsInCoinJoinResponseItem list option unmarshal"

text \<open>
  A method without a payload passes nil as \<open>out\<close>; \<^verbatim>\<open>json.Unmarshal\<close> refuses a
  nil target before it looks at any type, so the function given for the type is
  never applied.
\<close>

definition unmarshal_nil :: "unit unmarshal" where
  "unmarshal_nil data v = (Some ''json: Unmarshal(nil)'', v)"

text \<open>
  A method with a payload declares \<^verbatim>\<open>resp\<close>, which starts as the zero value of its
  type, and passes \<^verbatim>\<open>&resp\<close>. \<open>held z out\<close> reads \<^verbatim>\<open>resp\<close> after the call;
  \<open>do\<close> never turns a pointer into nil (lemma \<open>do_keeps_pointer\<close>).
\<close>

definition held :: "'a \<Rightarrow> 'a option \<Rightarrow> 'a" where
  "held z out = (case out of Some v \<Rightarrow> v | None \<Rightarrow> z)"

text \<open>
  One definition per method, in the order of the source. Each returns what the Go
  method returns, and the world afterwards. \<^verbatim>\<open>IsWasabiWalletUp\<close>, the TCP probe,
  is outside the pipeline and is not embedded.
\<close>

definition GetStatus ::
  "('t, 's) stdlib \<Rightarrow> codec \<Rightarrow> unmarshalers \<Rightarrow> 't client \<Rightarrow> 's world
     \<Rightarrow> (GetStatusResponse \<times> error option) \<times> 's world" where
  "GetStatus lib dec us c w =
     (case do lib dec (into_GetStatusResponse us) c MethodGetStatus []
             AnyNil (Some GetStatusResponse_zero) w of
        ((Some err, out), w') \<Rightarrow> ((GetStatusResponse_zero, Some err), w')
      | ((None, out), w') \<Rightarrow> ((held GetStatusResponse_zero out, None), w'))"

definition CreateWallet ::
  "('t, 's) stdlib \<Rightarrow> codec \<Rightarrow> unmarshalers \<Rightarrow> 't client \<Rightarrow> string \<Rightarrow> string \<Rightarrow> 's world
     \<Rightarrow> (string \<times> error option) \<times> 's world" where
  "CreateWallet lib dec us c walletName password w =
     (case do lib dec (into_string us) c MethodCreateWallet []
             (AnySlice [AnyString walletName, AnyString password]) (Some []) w of
        ((Some err, out), w') \<Rightarrow> (([], Some err), w')
      | ((None, out), w') \<Rightarrow> ((held [] out, None), w'))"

definition LoadWallet ::
  "('t, 's) stdlib \<Rightarrow> codec \<Rightarrow> 't client \<Rightarrow> string \<Rightarrow> 's world \<Rightarrow> error option \<times> 's world" where
  "LoadWallet lib dec c walletName w =
     (case do lib dec unmarshal_nil c MethodLoadWallet []
             (AnySlice [AnyString walletName]) None w of
        ((err, out), w') \<Rightarrow> (err, w'))"

definition ListCoins ::
  "('t, 's) stdlib \<Rightarrow> codec \<Rightarrow> unmarshalers \<Rightarrow> 't client \<Rightarrow> string \<Rightarrow> 's world
     \<Rightarrow> ((ListCoinsResponse list option) \<times> error option) \<times> 's world" where
  "ListCoins lib dec us c walletName w =
     (case do lib dec (into_ListCoinsResponses us) c MethodListCoins walletName
             AnyNil (Some None) w of
        ((Some err, out), w') \<Rightarrow> ((None, Some err), w')
      | ((None, out), w') \<Rightarrow> ((held None out, None), w'))"

definition ListUnspentCoins ::
  "('t, 's) stdlib \<Rightarrow> codec \<Rightarrow> unmarshalers \<Rightarrow> 't client \<Rightarrow> string \<Rightarrow> 's world
     \<Rightarrow> ((ListCoinsResponse list option) \<times> error option) \<times> 's world" where
  "ListUnspentCoins lib dec us c walletName w =
     (case do lib dec (into_ListCoinsResponses us) c MethodListUnspentCoins walletName
             AnyNil (Some None) w of
        ((Some err, out), w') \<Rightarrow> ((None, Some err), w')
      | ((None, out), w') \<Rightarrow> ((held None out, None), w'))"

definition GetWalletInfo ::
  "('t, 's) stdlib \<Rightarrow> codec \<Rightarrow> unmarshalers \<Rightarrow> 't client \<Rightarrow> string \<Rightarrow> 's world
     \<Rightarrow> (GetWalletInfoResponse \<times> error option) \<times> 's world" where
  "GetWalletInfo lib dec us c walletName w =
     (case do lib dec (into_GetWalletInfoResponse us) c MethodGetWalletInfo walletName
             AnyNil (Some GetWalletInfoResponse_zero) w of
        ((Some err, out), w') \<Rightarrow> ((GetWalletInfoResponse_zero, Some err), w')
      | ((None, out), w') \<Rightarrow> ((held GetWalletInfoResponse_zero out, None), w'))"

definition GetNewAddress ::
  "('t, 's) stdlib \<Rightarrow> codec \<Rightarrow> unmarshalers \<Rightarrow> 't client \<Rightarrow> string \<Rightarrow> string \<Rightarrow> 's world
     \<Rightarrow> (GetNewAddressResponse \<times> error option) \<times> 's world" where
  "GetNewAddress lib dec us c walletName label w =
     (case do lib dec (into_GetNewAddressResponse us) c MethodGetNewAddress walletName
             (AnySlice [AnyString label]) (Some GetNewAddressResponse_zero) w of
        ((Some err, out), w') \<Rightarrow> ((GetNewAddressResponse_zero, Some err), w')
      | ((None, out), w') \<Rightarrow> ((held GetNewAddressResponse_zero out, None), w'))"

definition Send ::
  "('t, 's) stdlib \<Rightarrow> codec \<Rightarrow> unmarshalers \<Rightarrow> 't client \<Rightarrow> string \<Rightarrow> (Payment list option) \<Rightarrow> (Coin list option) \<Rightarrow> int \<Rightarrow> string \<Rightarrow> 's world
     \<Rightarrow> (SendResponse \<times> error option) \<times> 's world" where
  "Send lib dec us c walletName payments coins feeTarget password w =
     (case do lib dec (into_SendResponse us) c MethodSend walletName
             (AnyMap [(''payments'', AnyPayments payments), (''coins'', AnyCoins coins), (''feeTarget'', AnyInt feeTarget), (''password'', AnyString password)]) (Some SendResponse_zero) w of
        ((Some err, out), w') \<Rightarrow> ((SendResponse_zero, Some err), w')
      | ((None, out), w') \<Rightarrow> ((held SendResponse_zero out, None), w'))"

definition Build ::
  "('t, 's) stdlib \<Rightarrow> codec \<Rightarrow> unmarshalers \<Rightarrow> 't client \<Rightarrow> string \<Rightarrow> (Payment list option) \<Rightarrow> (Coin list option) \<Rightarrow> int \<Rightarrow> string \<Rightarrow> 's world
     \<Rightarrow> (string \<times> error option) \<times> 's world" where
  "Build lib dec us c walletName payments coins feeTarget password w =
     (case do lib dec (into_string us) c MethodBuild walletName
             (AnyMap [(''payments'', AnyPayments payments), (''coins'', AnyCoins coins), (''feeTarget'', AnyInt feeTarget), (''password'', AnyString password)]) (Some []) w of
        ((Some err, out), w') \<Rightarrow> (([], Some err), w')
      | ((None, out), w') \<Rightarrow> ((held [] out, None), w'))"

definition Broadcast ::
  "('t, 's) stdlib \<Rightarrow> codec \<Rightarrow> unmarshalers \<Rightarrow> 't client \<Rightarrow> string \<Rightarrow> string \<Rightarrow> 's world
     \<Rightarrow> (string \<times> error option) \<times> 's world" where
  "Broadcast lib dec us c walletName hex w =
     (case do lib dec (into_string us) c MethodBroadcast walletName
             (AnySlice [AnyString hex]) (Some []) w of
        ((Some err, out), w') \<Rightarrow> (([], Some err), w')
      | ((None, out), w') \<Rightarrow> ((held [] out, None), w'))"

definition GetHistory ::
  "('t, 's) stdlib \<Rightarrow> codec \<Rightarrow> unmarshalers \<Rightarrow> 't client \<Rightarrow> string \<Rightarrow> 's world
     \<Rightarrow> ((Transaction list option) \<times> error option) \<times> 's world" where
  "GetHistory lib dec us c walletName w =
     (case do lib dec (into_Transactions us) c MethodGetHistory walletName
             AnyNil (Some None) w of
        ((Some err, out), w') \<Rightarrow> ((None, Some err), w')
      | ((None, out), w') \<Rightarrow> ((held None out, None), w'))"

definition ListKeys ::
  "('t, 's) stdlib \<Rightarrow> codec \<Rightarrow> unmarshalers \<Rightarrow> 't client \<Rightarrow> string \<Rightarrow> 's world
     \<Rightarrow> ((GeneratedKey list option) \<times> error option) \<times> 's world" where
  "ListKeys lib dec us c walletName w =
     (case do lib dec (into_GeneratedKeys us) c MethodListKeys walletName
             AnyNil (Some None) w of
        ((Some err, out), w') \<Rightarrow> ((None, Some err), w')
      | ((None, out), w') \<Rightarrow> ((held None out, None), w'))"

definition StartCoinJoin ::
  "('t, 's) stdlib \<Rightarrow> codec \<Rightarrow> 't client \<Rightarrow> string \<Rightarrow> string \<Rightarrow> bool \<Rightarrow> bool \<Rightarrow> 's world \<Rightarrow> error option \<times> 's world" where
  "StartCoinJoin lib dec c walletName password stopWhenAllMixed overridePlebStop w =
     (case do lib dec unmarshal_nil c MethodStartCoinJoin walletName
             (AnySlice [AnyString password, AnyBool stopWhenAllMixed, AnyBool overridePlebStop]) None w of
        ((err, out), w') \<Rightarrow> (err, w'))"

definition StartCoinJoinSweep ::
  "('t, 's) stdlib \<Rightarrow> codec \<Rightarrow> 't client \<Rightarrow> string \<Rightarrow> string \<Rightarrow> string \<Rightarrow> 's world \<Rightarrow> error option \<times> 's world" where
  "StartCoinJoinSweep lib dec c walletName password outputWalletName w =
     (case do lib dec unmarshal_nil c MethodStartCoinJoinSweep walletName
             (AnySlice [AnyString password, AnyString outputWalletName]) None w of
        ((err, out), w') \<Rightarrow> (err, w'))"

definition StopCoinJoin ::
  "('t, 's) stdlib \<Rightarrow> codec \<Rightarrow> 't client \<Rightarrow> string \<Rightarrow> 's world \<Rightarrow> error option \<times> 's world" where
  "StopCoinJoin lib dec c walletName w =
     (case do lib dec unmarshal_nil c MethodStopCoinJoin walletName
             AnyNil None w of
        ((err, out), w') \<Rightarrow> (err, w'))"

definition Stop ::
  "('t, 's) stdlib \<Rightarrow> codec \<Rightarrow> 't client \<Rightarrow> 's world \<Rightarrow> error option \<times> 's world" where
  "Stop lib dec c w =
     (case do lib dec unmarshal_nil c MethodStop []
             AnyNil None w of
        ((err, out), w') \<Rightarrow> (err, w'))"

definition GetFeeRates ::
  "('t, 's) stdlib \<Rightarrow> codec \<Rightarrow> unmarshalers \<Rightarrow> 't client \<Rightarrow> 's world
     \<Rightarrow> (GetFeeRatesResponse \<times> error option) \<times> 's world" where
  "GetFeeRates lib dec us c w =
     (case do lib dec (into_GetFeeRatesResponse us) c MethodGetFeeRates []
             AnyNil (Some None) w of
        ((Some err, out), w') \<Rightarrow> ((Some [], Some err), w')
      | ((None, out), w') \<Rightarrow> ((held None out, None), w'))"

definition ListWallets ::
  "('t, 's) stdlib \<Rightarrow> codec \<Rightarrow> unmarshalers \<Rightarrow> 't client \<Rightarrow> 's world
     \<Rightarrow> ((ListWalletsResponseItem list option) \<times> error option) \<times> 's world" where
  "ListWallets lib dec us c w =
     (case do lib dec (into_ListWalletsResponseItems us) c MethodListWallets []
             AnyNil (Some None) w of
        ((Some err, out), w') \<Rightarrow> ((None, Some err), w')
      | ((None, out), w') \<Rightarrow> ((held None out, None), w'))"

definition ExcludeFromCoinJoin ::
  "('t, 's) stdlib \<Rightarrow> codec \<Rightarrow> 't client \<Rightarrow> string \<Rightarrow> string \<Rightarrow> int \<Rightarrow> bool \<Rightarrow> 's world \<Rightarrow> error option \<times> 's world" where
  "ExcludeFromCoinJoin lib dec c walletName txID index exclude w =
     (case do lib dec unmarshal_nil c MethodExcludeFromCoinJoin walletName
             (AnySlice [AnyString txID, AnyInt index, AnyBool exclude]) None w of
        ((err, out), w') \<Rightarrow> (err, w'))"

definition RecoverWallet ::
  "('t, 's) stdlib \<Rightarrow> codec \<Rightarrow> 't client \<Rightarrow> string \<Rightarrow> string \<Rightarrow> string \<Rightarrow> 's world \<Rightarrow> error option \<times> 's world" where
  "RecoverWallet lib dec c walletName mnemonic password w =
     (case do lib dec unmarshal_nil c MethodRecoverWallet []
             (AnySlice [AnyString walletName, AnyString mnemonic, AnyString password]) None w of
        ((err, out), w') \<Rightarrow> (err, w'))"

definition BuildUnsafeTransaction ::
  "('t, 's) stdlib \<Rightarrow> codec \<Rightarrow> unmarshalers \<Rightarrow> 't client \<Rightarrow> string \<Rightarrow> (Payment list option) \<Rightarrow> (Coin list option) \<Rightarrow> int \<Rightarrow> string \<Rightarrow> 's world
     \<Rightarrow> (string \<times> error option) \<times> 's world" where
  "BuildUnsafeTransaction lib dec us c walletName payments coins feeTarget password w =
     (case do lib dec (into_string us) c MethodBuildUnsafeTransaction walletName
             (AnyMap [(''payments'', AnyPayments payments), (''coins'', AnyCoins coins), (''feeTarget'', AnyInt feeTarget), (''password'', AnyString password)]) (Some []) w of
        ((Some err, out), w') \<Rightarrow> (([], Some err), w')
      | ((None, out), w') \<Rightarrow> ((held [] out, None), w'))"

definition PayInCoinJoin ::
  "('t, 's) stdlib \<Rightarrow> codec \<Rightarrow> unmarshalers \<Rightarrow> 't client \<Rightarrow> string \<Rightarrow> string \<Rightarrow> int \<Rightarrow> string \<Rightarrow> 's world
     \<Rightarrow> (string \<times> error option) \<times> 's world" where
  "PayInCoinJoin lib dec us c walletName address amount password w =
     (case do lib dec (into_string us) c MethodPayInCoinJoin walletName
             (AnySlice [AnyString address, AnyInt amount, AnyString password]) (Some []) w of
        ((Some err, out), w') \<Rightarrow> (([], Some err), w')
      | ((None, out), w') \<Rightarrow> ((held [] out, None), w'))"

definition ListPaymentsInCoinJoin ::
  "('t, 's) stdlib \<Rightarrow> codec \<Rightarrow> unmarshalers \<Rightarrow> 't client \<Rightarrow> string \<Rightarrow> 's world
     \<Rightarrow> ((ListPaymentsInCoinJoinResponseItem list option) \<times> error option) \<times> 's world" where
  "ListPaymentsInCoinJoin lib dec us c walletName w =
     (case do lib dec (into_ListPaymentsInCoinJoinResponseItems us) c MethodListPaymentsInCoinJoin walletName
             AnyNil (Some None) w of
        ((Some err, out), w') \<Rightarrow> ((None, Some err), w')
      | ((None, out), w') \<Rightarrow> ((held None out, None), w'))"

definition CancelPaymentInCoinJoin ::
  "('t, 's) stdlib \<Rightarrow> codec \<Rightarrow> 't client \<Rightarrow> string \<Rightarrow> string \<Rightarrow> 's world \<Rightarrow> error option \<times> 's world" where
  "CancelPaymentInCoinJoin lib dec c walletName paymentID w =
     (case do lib dec unmarshal_nil c MethodCancelPaymentInCoinJoin walletName
             (AnySlice [AnyString paymentID]) None w of
        ((err, out), w') \<Rightarrow> (err, w'))"

definition CancelTransaction ::
  "('t, 's) stdlib \<Rightarrow> codec \<Rightarrow> unmarshalers \<Rightarrow> 't client \<Rightarrow> string \<Rightarrow> string \<Rightarrow> string \<Rightarrow> 's world
     \<Rightarrow> (string \<times> error option) \<times> 's world" where
  "CancelTransaction lib dec us c walletName txID password w =
     (case do lib dec (into_string us) c MethodCancelTransaction walletName
             (AnySlice [AnyString txID, AnyString password]) (Some []) w of
        ((Some err, out), w') \<Rightarrow> (([], Some err), w')
      | ((None, out), w') \<Rightarrow> ((held [] out, None), w'))"

definition SpeedUpTransaction ::
  "('t, 's) stdlib \<Rightarrow> codec \<Rightarrow> unmarshalers \<Rightarrow> 't client \<Rightarrow> string \<Rightarrow> string \<Rightarrow> string \<Rightarrow> 's world
     \<Rightarrow> (string \<times> error option) \<times> 's world" where
  "SpeedUpTransaction lib dec us c walletName txID password w =
     (case do lib dec (into_string us) c MethodSpeedUpTransaction walletName
             (AnySlice [AnyString txID, AnyString password]) (Some []) w of
        ((Some err, out), w') \<Rightarrow> (([], Some err), w')
      | ((None, out), w') \<Rightarrow> ((held [] out, None), w'))"

section \<open>Calls of the interface\<close>

text \<open>
  A value of \<open>call\<close> is one invocation of a method of the interface \<^verbatim>\<open>Client\<close>
  with its arguments, a value of \<open>reply\<close> what it returns beside the error, and
  \<open>invoke\<close> dispatches to the method. They serve to state a property of every
  method at once.
\<close>

datatype call =
    CallGetStatus
  | CallCreateWallet string string
  | CallLoadWallet string
  | CallListCoins string
  | CallListUnspentCoins string
  | CallGetWalletInfo string
  | CallGetNewAddress string string
  | CallSend string "Payment list option" "Coin list option" int string
  | CallBuild string "Payment list option" "Coin list option" int string
  | CallBroadcast string string
  | CallGetHistory string
  | CallListKeys string
  | CallStartCoinJoin string string bool bool
  | CallStartCoinJoinSweep string string string
  | CallStopCoinJoin string
  | CallStop
  | CallGetFeeRates
  | CallListWallets
  | CallExcludeFromCoinJoin string string int bool
  | CallRecoverWallet string string string
  | CallBuildUnsafeTransaction string "Payment list option" "Coin list option" int string
  | CallPayInCoinJoin string string int string
  | CallListPaymentsInCoinJoin string
  | CallCancelPaymentInCoinJoin string string
  | CallCancelTransaction string string string
  | CallSpeedUpTransaction string string string

datatype reply =
    NoPayload
  | StatusReply GetStatusResponse
  | StringReply string
  | CoinsReply "ListCoinsResponse list option"
  | WalletInfoReply GetWalletInfoResponse
  | NewAddressReply GetNewAddressResponse
  | SendReply SendResponse
  | HistoryReply "Transaction list option"
  | KeysReply "GeneratedKey list option"
  | FeeRatesReply GetFeeRatesResponse
  | WalletsReply "ListWalletsResponseItem list option"
  | PaymentsReply "ListPaymentsInCoinJoinResponseItem list option"

primrec invoke ::
  "('t, 's) stdlib \<Rightarrow> codec \<Rightarrow> unmarshalers \<Rightarrow> 't client \<Rightarrow> call \<Rightarrow> 's world
     \<Rightarrow> (reply \<times> error option) \<times> 's world" where
  "invoke lib dec us c CallGetStatus w =
     (case GetStatus lib dec us c w of ((resp, err), w') \<Rightarrow> ((StatusReply resp, err), w'))"
| "invoke lib dec us c (CallCreateWallet walletName password) w =
     (case CreateWallet lib dec us c walletName password w of ((resp, err), w') \<Rightarrow> ((StringReply resp, err), w'))"
| "invoke lib dec us c (CallLoadWallet walletName) w =
     (case LoadWallet lib dec c walletName w of (err, w') \<Rightarrow> ((NoPayload, err), w'))"
| "invoke lib dec us c (CallListCoins walletName) w =
     (case ListCoins lib dec us c walletName w of ((resp, err), w') \<Rightarrow> ((CoinsReply resp, err), w'))"
| "invoke lib dec us c (CallListUnspentCoins walletName) w =
     (case ListUnspentCoins lib dec us c walletName w of ((resp, err), w') \<Rightarrow> ((CoinsReply resp, err), w'))"
| "invoke lib dec us c (CallGetWalletInfo walletName) w =
     (case GetWalletInfo lib dec us c walletName w of ((resp, err), w') \<Rightarrow> ((WalletInfoReply resp, err), w'))"
| "invoke lib dec us c (CallGetNewAddress walletName label) w =
     (case GetNewAddress lib dec us c walletName label w of ((resp, err), w') \<Rightarrow> ((NewAddressReply resp, err), w'))"
| "invoke lib dec us c (CallSend walletName payments coins feeTarget password) w =
     (case Send lib dec us c walletName payments coins feeTarget password w of ((resp, err), w') \<Rightarrow> ((SendReply resp, err), w'))"
| "invoke lib dec us c (CallBuild walletName payments coins feeTarget password) w =
     (case Build lib dec us c walletName payments coins feeTarget password w of ((resp, err), w') \<Rightarrow> ((StringReply resp, err), w'))"
| "invoke lib dec us c (CallBroadcast walletName hex) w =
     (case Broadcast lib dec us c walletName hex w of ((resp, err), w') \<Rightarrow> ((StringReply resp, err), w'))"
| "invoke lib dec us c (CallGetHistory walletName) w =
     (case GetHistory lib dec us c walletName w of ((resp, err), w') \<Rightarrow> ((HistoryReply resp, err), w'))"
| "invoke lib dec us c (CallListKeys walletName) w =
     (case ListKeys lib dec us c walletName w of ((resp, err), w') \<Rightarrow> ((KeysReply resp, err), w'))"
| "invoke lib dec us c (CallStartCoinJoin walletName password stopWhenAllMixed overridePlebStop) w =
     (case StartCoinJoin lib dec c walletName password stopWhenAllMixed overridePlebStop w of (err, w') \<Rightarrow> ((NoPayload, err), w'))"
| "invoke lib dec us c (CallStartCoinJoinSweep walletName password outputWalletName) w =
     (case StartCoinJoinSweep lib dec c walletName password outputWalletName w of (err, w') \<Rightarrow> ((NoPayload, err), w'))"
| "invoke lib dec us c (CallStopCoinJoin walletName) w =
     (case StopCoinJoin lib dec c walletName w of (err, w') \<Rightarrow> ((NoPayload, err), w'))"
| "invoke lib dec us c CallStop w =
     (case Stop lib dec c w of (err, w') \<Rightarrow> ((NoPayload, err), w'))"
| "invoke lib dec us c CallGetFeeRates w =
     (case GetFeeRates lib dec us c w of ((resp, err), w') \<Rightarrow> ((FeeRatesReply resp, err), w'))"
| "invoke lib dec us c CallListWallets w =
     (case ListWallets lib dec us c w of ((resp, err), w') \<Rightarrow> ((WalletsReply resp, err), w'))"
| "invoke lib dec us c (CallExcludeFromCoinJoin walletName txID index exclude) w =
     (case ExcludeFromCoinJoin lib dec c walletName txID index exclude w of (err, w') \<Rightarrow> ((NoPayload, err), w'))"
| "invoke lib dec us c (CallRecoverWallet walletName mnemonic password) w =
     (case RecoverWallet lib dec c walletName mnemonic password w of (err, w') \<Rightarrow> ((NoPayload, err), w'))"
| "invoke lib dec us c (CallBuildUnsafeTransaction walletName payments coins feeTarget password) w =
     (case BuildUnsafeTransaction lib dec us c walletName payments coins feeTarget password w of ((resp, err), w') \<Rightarrow> ((StringReply resp, err), w'))"
| "invoke lib dec us c (CallPayInCoinJoin walletName address amount password) w =
     (case PayInCoinJoin lib dec us c walletName address amount password w of ((resp, err), w') \<Rightarrow> ((StringReply resp, err), w'))"
| "invoke lib dec us c (CallListPaymentsInCoinJoin walletName) w =
     (case ListPaymentsInCoinJoin lib dec us c walletName w of ((resp, err), w') \<Rightarrow> ((PaymentsReply resp, err), w'))"
| "invoke lib dec us c (CallCancelPaymentInCoinJoin walletName paymentID) w =
     (case CancelPaymentInCoinJoin lib dec c walletName paymentID w of (err, w') \<Rightarrow> ((NoPayload, err), w'))"
| "invoke lib dec us c (CallCancelTransaction walletName txID password) w =
     (case CancelTransaction lib dec us c walletName txID password w of ((resp, err), w') \<Rightarrow> ((StringReply resp, err), w'))"
| "invoke lib dec us c (CallSpeedUpTransaction walletName txID password) w =
     (case SpeedUpTransaction lib dec us c walletName txID password w of ((resp, err), w') \<Rightarrow> ((StringReply resp, err), w'))"

text \<open>
  The three arguments with which the body of each method calls \<open>do\<close>.
\<close>

primrec call_method :: "call \<Rightarrow> Method" where
  "call_method CallGetStatus = MethodGetStatus"
| "call_method (CallCreateWallet walletName password) = MethodCreateWallet"
| "call_method (CallLoadWallet walletName) = MethodLoadWallet"
| "call_method (CallListCoins walletName) = MethodListCoins"
| "call_method (CallListUnspentCoins walletName) = MethodListUnspentCoins"
| "call_method (CallGetWalletInfo walletName) = MethodGetWalletInfo"
| "call_method (CallGetNewAddress walletName label) = MethodGetNewAddress"
| "call_method (CallSend walletName payments coins feeTarget password) = MethodSend"
| "call_method (CallBuild walletName payments coins feeTarget password) = MethodBuild"
| "call_method (CallBroadcast walletName hex) = MethodBroadcast"
| "call_method (CallGetHistory walletName) = MethodGetHistory"
| "call_method (CallListKeys walletName) = MethodListKeys"
| "call_method (CallStartCoinJoin walletName password stopWhenAllMixed overridePlebStop) = MethodStartCoinJoin"
| "call_method (CallStartCoinJoinSweep walletName password outputWalletName) = MethodStartCoinJoinSweep"
| "call_method (CallStopCoinJoin walletName) = MethodStopCoinJoin"
| "call_method CallStop = MethodStop"
| "call_method CallGetFeeRates = MethodGetFeeRates"
| "call_method CallListWallets = MethodListWallets"
| "call_method (CallExcludeFromCoinJoin walletName txID index exclude) = MethodExcludeFromCoinJoin"
| "call_method (CallRecoverWallet walletName mnemonic password) = MethodRecoverWallet"
| "call_method (CallBuildUnsafeTransaction walletName payments coins feeTarget password) = MethodBuildUnsafeTransaction"
| "call_method (CallPayInCoinJoin walletName address amount password) = MethodPayInCoinJoin"
| "call_method (CallListPaymentsInCoinJoin walletName) = MethodListPaymentsInCoinJoin"
| "call_method (CallCancelPaymentInCoinJoin walletName paymentID) = MethodCancelPaymentInCoinJoin"
| "call_method (CallCancelTransaction walletName txID password) = MethodCancelTransaction"
| "call_method (CallSpeedUpTransaction walletName txID password) = MethodSpeedUpTransaction"

primrec call_wallet :: "call \<Rightarrow> string" where
  "call_wallet CallGetStatus = []"
| "call_wallet (CallCreateWallet walletName password) = []"
| "call_wallet (CallLoadWallet walletName) = []"
| "call_wallet (CallListCoins walletName) = walletName"
| "call_wallet (CallListUnspentCoins walletName) = walletName"
| "call_wallet (CallGetWalletInfo walletName) = walletName"
| "call_wallet (CallGetNewAddress walletName label) = walletName"
| "call_wallet (CallSend walletName payments coins feeTarget password) = walletName"
| "call_wallet (CallBuild walletName payments coins feeTarget password) = walletName"
| "call_wallet (CallBroadcast walletName hex) = walletName"
| "call_wallet (CallGetHistory walletName) = walletName"
| "call_wallet (CallListKeys walletName) = walletName"
| "call_wallet (CallStartCoinJoin walletName password stopWhenAllMixed overridePlebStop) = walletName"
| "call_wallet (CallStartCoinJoinSweep walletName password outputWalletName) = walletName"
| "call_wallet (CallStopCoinJoin walletName) = walletName"
| "call_wallet CallStop = []"
| "call_wallet CallGetFeeRates = []"
| "call_wallet CallListWallets = []"
| "call_wallet (CallExcludeFromCoinJoin walletName txID index exclude) = walletName"
| "call_wallet (CallRecoverWallet walletName mnemonic password) = []"
| "call_wallet (CallBuildUnsafeTransaction walletName payments coins feeTarget password) = walletName"
| "call_wallet (CallPayInCoinJoin walletName address amount password) = walletName"
| "call_wallet (CallListPaymentsInCoinJoin walletName) = walletName"
| "call_wallet (CallCancelPaymentInCoinJoin walletName paymentID) = walletName"
| "call_wallet (CallCancelTransaction walletName txID password) = walletName"
| "call_wallet (CallSpeedUpTransaction walletName txID password) = walletName"

primrec call_params :: "call \<Rightarrow> any" where
  "call_params CallGetStatus = AnyNil"
| "call_params (CallCreateWallet walletName password) = AnySlice [AnyString walletName, AnyString password]"
| "call_params (CallLoadWallet walletName) = AnySlice [AnyString walletName]"
| "call_params (CallListCoins walletName) = AnyNil"
| "call_params (CallListUnspentCoins walletName) = AnyNil"
| "call_params (CallGetWalletInfo walletName) = AnyNil"
| "call_params (CallGetNewAddress walletName label) = AnySlice [AnyString label]"
| "call_params (CallSend walletName payments coins feeTarget password) = AnyMap [(''payments'', AnyPayments payments), (''coins'', AnyCoins coins), (''feeTarget'', AnyInt feeTarget), (''password'', AnyString password)]"
| "call_params (CallBuild walletName payments coins feeTarget password) = AnyMap [(''payments'', AnyPayments payments), (''coins'', AnyCoins coins), (''feeTarget'', AnyInt feeTarget), (''password'', AnyString password)]"
| "call_params (CallBroadcast walletName hex) = AnySlice [AnyString hex]"
| "call_params (CallGetHistory walletName) = AnyNil"
| "call_params (CallListKeys walletName) = AnyNil"
| "call_params (CallStartCoinJoin walletName password stopWhenAllMixed overridePlebStop) = AnySlice [AnyString password, AnyBool stopWhenAllMixed, AnyBool overridePlebStop]"
| "call_params (CallStartCoinJoinSweep walletName password outputWalletName) = AnySlice [AnyString password, AnyString outputWalletName]"
| "call_params (CallStopCoinJoin walletName) = AnyNil"
| "call_params CallStop = AnyNil"
| "call_params CallGetFeeRates = AnyNil"
| "call_params CallListWallets = AnyNil"
| "call_params (CallExcludeFromCoinJoin walletName txID index exclude) = AnySlice [AnyString txID, AnyInt index, AnyBool exclude]"
| "call_params (CallRecoverWallet walletName mnemonic password) = AnySlice [AnyString walletName, AnyString mnemonic, AnyString password]"
| "call_params (CallBuildUnsafeTransaction walletName payments coins feeTarget password) = AnyMap [(''payments'', AnyPayments payments), (''coins'', AnyCoins coins), (''feeTarget'', AnyInt feeTarget), (''password'', AnyString password)]"
| "call_params (CallPayInCoinJoin walletName address amount password) = AnySlice [AnyString address, AnyInt amount, AnyString password]"
| "call_params (CallListPaymentsInCoinJoin walletName) = AnyNil"
| "call_params (CallCancelPaymentInCoinJoin walletName paymentID) = AnySlice [AnyString paymentID]"
| "call_params (CallCancelTransaction walletName txID password) = AnySlice [AnyString txID, AnyString password]"
| "call_params (CallSpeedUpTransaction walletName txID password) = AnySlice [AnyString txID, AnyString password]"

text \<open>
  The signatures: a method returns a payload and an error, or an error alone;
  \<open>zero_reply\<close> is the zero value of the payload's type.
\<close>

primrec has_payload :: "call \<Rightarrow> bool" where
  "has_payload CallGetStatus = True"
| "has_payload (CallCreateWallet walletName password) = True"
| "has_payload (CallLoadWallet walletName) = False"
| "has_payload (CallListCoins walletName) = True"
| "has_payload (CallListUnspentCoins walletName) = True"
| "has_payload (CallGetWalletInfo walletName) = True"
| "has_payload (CallGetNewAddress walletName label) = True"
| "has_payload (CallSend walletName payments coins feeTarget password) = True"
| "has_payload (CallBuild walletName payments coins feeTarget password) = True"
| "has_payload (CallBroadcast walletName hex) = True"
| "has_payload (CallGetHistory walletName) = True"
| "has_payload (CallListKeys walletName) = True"
| "has_payload (CallStartCoinJoin walletName password stopWhenAllMixed overridePlebStop) = False"
| "has_payload (CallStartCoinJoinSweep walletName password outputWalletName) = False"
| "has_payload (CallStopCoinJoin walletName) = False"
| "has_payload CallStop = False"
| "has_payload CallGetFeeRates = True"
| "has_payload CallListWallets = True"
| "has_payload (CallExcludeFromCoinJoin walletName txID index exclude) = False"
| "has_payload (CallRecoverWallet walletName mnemonic password) = False"
| "has_payload (CallBuildUnsafeTransaction walletName payments coins feeTarget password) = True"
| "has_payload (CallPayInCoinJoin walletName address amount password) = True"
| "has_payload (CallListPaymentsInCoinJoin walletName) = True"
| "has_payload (CallCancelPaymentInCoinJoin walletName paymentID) = False"
| "has_payload (CallCancelTransaction walletName txID password) = True"
| "has_payload (CallSpeedUpTransaction walletName txID password) = True"

primrec zero_reply :: "call \<Rightarrow> reply" where
  "zero_reply CallGetStatus = StatusReply GetStatusResponse_zero"
| "zero_reply (CallCreateWallet walletName password) = StringReply []"
| "zero_reply (CallLoadWallet walletName) = NoPayload"
| "zero_reply (CallListCoins walletName) = CoinsReply None"
| "zero_reply (CallListUnspentCoins walletName) = CoinsReply None"
| "zero_reply (CallGetWalletInfo walletName) = WalletInfoReply GetWalletInfoResponse_zero"
| "zero_reply (CallGetNewAddress walletName label) = NewAddressReply GetNewAddressResponse_zero"
| "zero_reply (CallSend walletName payments coins feeTarget password) = SendReply SendResponse_zero"
| "zero_reply (CallBuild walletName payments coins feeTarget password) = StringReply []"
| "zero_reply (CallBroadcast walletName hex) = StringReply []"
| "zero_reply (CallGetHistory walletName) = HistoryReply None"
| "zero_reply (CallListKeys walletName) = KeysReply None"
| "zero_reply (CallStartCoinJoin walletName password stopWhenAllMixed overridePlebStop) = NoPayload"
| "zero_reply (CallStartCoinJoinSweep walletName password outputWalletName) = NoPayload"
| "zero_reply (CallStopCoinJoin walletName) = NoPayload"
| "zero_reply CallStop = NoPayload"
| "zero_reply CallGetFeeRates = FeeRatesReply None"
| "zero_reply CallListWallets = WalletsReply None"
| "zero_reply (CallExcludeFromCoinJoin walletName txID index exclude) = NoPayload"
| "zero_reply (CallRecoverWallet walletName mnemonic password) = NoPayload"
| "zero_reply (CallBuildUnsafeTransaction walletName payments coins feeTarget password) = StringReply []"
| "zero_reply (CallPayInCoinJoin walletName address amount password) = StringReply []"
| "zero_reply (CallListPaymentsInCoinJoin walletName) = PaymentsReply None"
| "zero_reply (CallCancelPaymentInCoinJoin walletName paymentID) = NoPayload"
| "zero_reply (CallCancelTransaction walletName txID password) = StringReply []"
| "zero_reply (CallSpeedUpTransaction walletName txID password) = StringReply []"

text \<open>
  The methods that address a loaded wallet, and the \<^verbatim>\<open>walletName\<close> argument of a
  call. \<^verbatim>\<open>CreateWallet\<close>, \<^verbatim>\<open>LoadWallet\<close> and \<^verbatim>\<open>RecoverWallet\<close> name a wallet in
  their parameters but address the daemon, not a wallet.
\<close>

primrec wallet_scoped :: "call \<Rightarrow> bool" where
  "wallet_scoped CallGetStatus = False"
| "wallet_scoped (CallCreateWallet walletName password) = False"
| "wallet_scoped (CallLoadWallet walletName) = False"
| "wallet_scoped (CallListCoins walletName) = True"
| "wallet_scoped (CallListUnspentCoins walletName) = True"
| "wallet_scoped (CallGetWalletInfo walletName) = True"
| "wallet_scoped (CallGetNewAddress walletName label) = True"
| "wallet_scoped (CallSend walletName payments coins feeTarget password) = True"
| "wallet_scoped (CallBuild walletName payments coins feeTarget password) = True"
| "wallet_scoped (CallBroadcast walletName hex) = True"
| "wallet_scoped (CallGetHistory walletName) = True"
| "wallet_scoped (CallListKeys walletName) = True"
| "wallet_scoped (CallStartCoinJoin walletName password stopWhenAllMixed overridePlebStop) = True"
| "wallet_scoped (CallStartCoinJoinSweep walletName password outputWalletName) = True"
| "wallet_scoped (CallStopCoinJoin walletName) = True"
| "wallet_scoped CallStop = False"
| "wallet_scoped CallGetFeeRates = False"
| "wallet_scoped CallListWallets = False"
| "wallet_scoped (CallExcludeFromCoinJoin walletName txID index exclude) = True"
| "wallet_scoped (CallRecoverWallet walletName mnemonic password) = False"
| "wallet_scoped (CallBuildUnsafeTransaction walletName payments coins feeTarget password) = True"
| "wallet_scoped (CallPayInCoinJoin walletName address amount password) = True"
| "wallet_scoped (CallListPaymentsInCoinJoin walletName) = True"
| "wallet_scoped (CallCancelPaymentInCoinJoin walletName paymentID) = True"
| "wallet_scoped (CallCancelTransaction walletName txID password) = True"
| "wallet_scoped (CallSpeedUpTransaction walletName txID password) = True"

primrec wallet_name :: "call \<Rightarrow> string" where
  "wallet_name CallGetStatus = []"
| "wallet_name (CallCreateWallet walletName password) = walletName"
| "wallet_name (CallLoadWallet walletName) = walletName"
| "wallet_name (CallListCoins walletName) = walletName"
| "wallet_name (CallListUnspentCoins walletName) = walletName"
| "wallet_name (CallGetWalletInfo walletName) = walletName"
| "wallet_name (CallGetNewAddress walletName label) = walletName"
| "wallet_name (CallSend walletName payments coins feeTarget password) = walletName"
| "wallet_name (CallBuild walletName payments coins feeTarget password) = walletName"
| "wallet_name (CallBroadcast walletName hex) = walletName"
| "wallet_name (CallGetHistory walletName) = walletName"
| "wallet_name (CallListKeys walletName) = walletName"
| "wallet_name (CallStartCoinJoin walletName password stopWhenAllMixed overridePlebStop) = walletName"
| "wallet_name (CallStartCoinJoinSweep walletName password outputWalletName) = walletName"
| "wallet_name (CallStopCoinJoin walletName) = walletName"
| "wallet_name CallStop = []"
| "wallet_name CallGetFeeRates = []"
| "wallet_name CallListWallets = []"
| "wallet_name (CallExcludeFromCoinJoin walletName txID index exclude) = walletName"
| "wallet_name (CallRecoverWallet walletName mnemonic password) = walletName"
| "wallet_name (CallBuildUnsafeTransaction walletName payments coins feeTarget password) = walletName"
| "wallet_name (CallPayInCoinJoin walletName address amount password) = walletName"
| "wallet_name (CallListPaymentsInCoinJoin walletName) = walletName"
| "wallet_name (CallCancelPaymentInCoinJoin walletName paymentID) = walletName"
| "wallet_name (CallCancelTransaction walletName txID password) = walletName"
| "wallet_name (CallSpeedUpTransaction walletName txID password) = walletName"

text \<open>
  Lines 132 to 154 of \<open>do\<close> on their own: everything up to the answer of
  \<^verbatim>\<open>httpClient.Do\<close>. Lemma \<open>do_exchange\<close> shows that \<open>do\<close> is this, followed by
  the status check and the decoding.
\<close>

definition exchange ::
  "('t, 's) stdlib \<Rightarrow> 't client \<Rightarrow> Method \<Rightarrow> string \<Rightarrow> any \<Rightarrow> 's world
     \<Rightarrow> (error + Response) \<times> 's world" where
  "exchange lib c method targetWalletName inp w =
     (case encodeClientRequest lib (Method_String method) inp w of
        (Inl err, w1) \<Rightarrow> (Inl err, w1)
      | (Inr payload, w1) \<Rightarrow>
          (case http_NewRequest lib ''POST''
                  (''http://'' @ host c @ '':'' @ format_int (port c) @ ''/'' @ targetWalletName)
                  payload of
             Inl err \<Rightarrow> (Inl err, w1)
           | Inr req0 \<Rightarrow>
               httpClient_Do lib (httpClient c)
                 (case headers c of None \<Rightarrow> req0 | Some hs \<Rightarrow> foldl (Header_Set lib) req0 hs) w1))"


section \<open>The arms of \<open>Validate\<close> that write to the config\<close>

text \<open>
  The conditions under which the switch of \<open>Validate\<close> reaches the arm
  \<^verbatim>\<open>case c.Port == 0\<close>, and the arm \<^verbatim>\<open>case c.RpcUser != "" && c.RpcPassword != ""\<close>:
  every earlier arm has to be skipped, the arm \<^verbatim>\<open>case c.CustomHeaders != nil\<close> among
  them.
\<close>

definition port_default_arm :: "'t Config \<Rightarrow> bool" where
  "port_default_arm c = (Host c \<noteq> [] \<and> \<not> ContainsAny (Host c) ''/:'' \<and> Port c = 0)"

definition credentials_arm :: "'t Config \<Rightarrow> bool" where
  "credentials_arm c =
     (Host c \<noteq> [] \<and> \<not> ContainsAny (Host c) ''/:'' \<and> 0 < Port c \<and> Port c \<le> 65535
      \<and> RpcUser c \<noteq> [] \<and> RpcPassword c \<noteq> [] \<and> CustomHeaders c = None)"

section \<open>A test double of the daemon\<close>

text \<open>
  Concrete values for the parameters, on which the theorems below are run: a
  transport that answers every request with a fixed status and body, and the
  results of \<^verbatim>\<open>encoding/json\<close> on three bodies.
\<close>

definition null_body :: string where
  \<open>null_body = ''{"jsonrpc":"2.0","result":null,"error":null,"id":7}''\<close>

definition text_error_body :: string where
  \<open>text_error_body = ''{"jsonrpc":"2.0","result":true,"error":"boom","id":7}''\<close>

definition rpc_error_body :: string where
  \<open>rpc_error_body = ''{"jsonrpc":"2.0","error":{"code":-32601,"message":"Method not found"},"id":7}''\<close>

definition rpc_error_raw :: string where
  \<open>rpc_error_raw = ''{"code":-32601,"message":"Method not found"}''\<close>

definition text_error_raw :: string where
  \<open>text_error_raw = [CHR 0x22] @ ''boom'' @ [CHR 0x22]\<close>

definition test_lib :: "int \<Rightarrow> string \<Rightarrow> (unit, unit) stdlib" where
  "test_lib status body =
     \<lparr>rand_Int = (\<lambda>max s. (Inr 7, s)),
      json_Marshal = (\<lambda>r. Inr (Method r)),
      url_error = (\<lambda>u. None),
      CanonicalMIMEHeaderKey = (\<lambda>k. k),
      RoundTrip = (\<lambda>hc req s. (Inr \<lparr>StatusCode = status, Body = body\<rparr>, s))\<rparr>"

definition test_codec :: codec where
  "test_codec =
     \<lparr>decode_envelope =
        (\<lambda>b. if b = null_body then Inr \<lparr>Version = ''2.0'', Result = None, Error = None\<rparr>
             else if b = text_error_body then
               Inr \<lparr>Version = ''2.0'', Result = Some ''true'', Error = Some text_error_raw\<rparr>
             else if b = rpc_error_body then
               Inr \<lparr>Version = ''2.0'', Result = None, Error = Some rpc_error_raw\<rparr>
             else Inl ''unexpected end of JSON input''),
      unmarshal_RPCError =
        (\<lambda>raw. if raw = rpc_error_raw then
                 Inr \<lparr>Code = - 32601, Message = ''Method not found'', Data = JNull\<rparr>
               else Inl ''json: cannot unmarshal string into Go value of type wasabi.RPCError'')\<rparr>"

definition test_unmarshalers :: unmarshalers where
  "test_unmarshalers =
     \<lparr>into_GetStatusResponse = (\<lambda>data v. (None, v)),
      into_string = (\<lambda>data v. (None, v)),
      into_ListCoinsResponses = (\<lambda>data v. (None, v)),
      into_GetWalletInfoResponse = (\<lambda>data v. (None, v)),
      into_GetNewAddressResponse = (\<lambda>data v. (None, v)),
      into_SendResponse = (\<lambda>data v. (None, v)),
      into_Transactions = (\<lambda>data v. (None, v)),
      into_GeneratedKeys = (\<lambda>data v. (None, v)),
      into_GetFeeRatesResponse = (\<lambda>data v. (None, v)),
      into_ListWalletsResponseItems = (\<lambda>data v. (None, v)),
      into_ListPaymentsInCoinJoinResponseItems = (\<lambda>data v. (None, v))\<rparr>"

definition test_client :: "unit client" where
  "test_client = \<lparr>httpClient = DefaultClient, host = ''127.0.0.1'', port = 37128, headers = None\<rparr>"

definition world0 :: "unit world" where
  "world0 = \<lparr>sent = [], outside = ()\<rparr>"

section \<open>Formatting\<close>

text \<open>
  The defining equation of \<open>decimal\<close> as two conditional rules, which evaluate it on
  a numeral, and the fact that \<^verbatim>\<open>%d\<close> loses nothing: the number can be read back
  from its digits.
\<close>

lemma decimal_digit: "n < 10 \<Longrightarrow> decimal n = [digit_char n]"
  by (simp add: decimal.simps)

lemma decimal_step: "10 \<le> n \<Longrightarrow> decimal n = decimal (n div 10) @ [digit_char (n mod 10)]"
  by (subst decimal.simps) simp

lemma digit_char_inj: "a < 10 \<Longrightarrow> b < 10 \<Longrightarrow> digit_char a = digit_char b \<Longrightarrow> a = b"
proof -
  assume a: "a < 10" and b: "b < 10" and e: "digit_char a = digit_char b"
  have d: "distinct ''0123456789''" by simp
  have "''0123456789'' ! a = ''0123456789'' ! b" using a b e by (simp add: digit_char_def)
  with d a b show "a = b" by (simp add: nth_eq_iff_index_eq)
qed

lemma digit_char_not_minus: "digit_char d \<noteq> CHR ''-''"
proof -
  have "d mod 10 < 10" by simp
  then have "''0123456789'' ! (d mod 10) \<in> set ''0123456789''"
    by (intro nth_mem) simp
  then show ?thesis by (auto simp: digit_char_def)
qed

lemma decimal_not_Nil: "decimal n \<noteq> []"
  by (subst decimal.simps) simp

lemma decimal_long:
  assumes "10 \<le> n"
  shows "2 \<le> length (decimal n)"
proof (cases "decimal (n div 10)")
  case Nil
  with decimal_not_Nil show ?thesis by blast
next
  case (Cons a as)
  have "decimal n = decimal (n div 10) @ [digit_char (n mod 10)]"
    using assms by (rule decimal_step)
  with Cons show ?thesis by simp
qed

lemma decimal_inj: "decimal n = decimal m \<Longrightarrow> n = m"
proof (induction n arbitrary: m rule: decimal.induct)
  case (1 n)
  have len: "length (decimal n) = length (decimal m)" using "1.prems" by simp
  show ?case
  proof (cases "n < 10")
    case True
    show ?thesis
    proof (cases "m < 10")
      case mt: True
      from True mt "1.prems" have "digit_char n = digit_char m" by (simp add: decimal_digit)
      with True mt show ?thesis by (rule digit_char_inj)
    next
      case False
      then have "2 \<le> length (decimal m)" by (simp add: decimal_long)
      moreover from True have "length (decimal n) = 1" by (simp add: decimal_digit)
      ultimately show ?thesis using len by simp
    qed
  next
    case False
    show ?thesis
    proof (cases "m < 10")
      case True
      from False have "2 \<le> length (decimal n)" by (simp add: decimal_long)
      moreover from True have "length (decimal m) = 1" by (simp add: decimal_digit)
      ultimately show ?thesis using len by simp
    next
      case mf: False
      from False have "decimal n = decimal (n div 10) @ [digit_char (n mod 10)]"
        by (intro decimal_step) simp
      moreover from mf have "decimal m = decimal (m div 10) @ [digit_char (m mod 10)]"
        by (intro decimal_step) simp
      ultimately have "decimal (n div 10) @ [digit_char (n mod 10)]
          = decimal (m div 10) @ [digit_char (m mod 10)]"
        using "1.prems" by simp
      then have e: "decimal (n div 10) = decimal (m div 10)"
        and d: "digit_char (n mod 10) = digit_char (m mod 10)"
        by simp_all
      from "1.IH" [OF False e] have q: "n div 10 = m div 10" .
      have r: "n mod 10 = m mod 10" by (rule digit_char_inj [OF _ _ d]) simp_all
      have "n = 10 * (n div 10) + n mod 10" by simp
      also have "\<dots> = 10 * (m div 10) + m mod 10" using q r by simp
      also have "\<dots> = m" by simp
      finally show ?thesis .
    qed
  qed
qed

lemma decimal_hd: "hd (decimal n) \<noteq> CHR ''-''"
proof (induction n rule: decimal.induct)
  case (1 n)
  show ?case
  proof (cases "n < 10")
    case True
    then show ?thesis by (simp add: decimal_digit digit_char_not_minus)
  next
    case False
    then have "decimal n = decimal (n div 10) @ [digit_char (n mod 10)]"
      by (intro decimal_step) simp
    with "1.IH" [OF False] decimal_not_Nil [of "n div 10"] show ?thesis by simp
  qed
qed

lemma format_int_inj: "format_int a = format_int b \<Longrightarrow> a = b"
proof -
  assume e: "format_int a = format_int b"
  have neg: "decimal x \<noteq> CHR ''-'' # ys" for x ys
    using decimal_hd [of x] by (cases "decimal x") auto
  show "a = b"
  proof (cases "a < 0")
    case True
    show ?thesis
    proof (cases "b < 0")
      case bt: True
      from True bt e have "decimal (nat (- a)) = decimal (nat (- b))" by (simp add: format_int_def)
      then have "nat (- a) = nat (- b)" by (rule decimal_inj)
      with True bt show ?thesis by simp
    next
      case False
      with True e have "decimal (nat b) = CHR ''-'' # decimal (nat (- a))" by (simp add: format_int_def)
      with neg show ?thesis by blast
    qed
  next
    case False
    show ?thesis
    proof (cases "b < 0")
      case True
      with False e have "decimal (nat a) = CHR ''-'' # decimal (nat (- b))" by (simp add: format_int_def)
      with neg show ?thesis by blast
    next
      case bf: False
      with False e have "decimal (nat a) = decimal (nat b)" by (simp add: format_int_def)
      then have "nat a = nat b" by (rule decimal_inj)
      with False bf show ?thesis by simp
    qed
  qed
qed

lemma format_int_37128: "format_int 37128 = ''37128''"
  by (simp add: format_int_def decimal_digit decimal_step digit_char_def)

section \<open>Validation of the configuration\<close>

lemma ContainsAny_iff: "ContainsAny s chars \<longleftrightarrow> (\<exists>c \<in> set s. c \<in> set chars)"
  by (simp add: ContainsAny_def list_ex_iff)

lemma check_headers_key:
  "''Authorization'' \<in> fst ` set m \<Longrightarrow> check_headers m \<noteq> None"
  by (induction m) force+

text \<open>
  What \<open>Validate\<close> does reject: a host with a colon or a slash always; a lone
  user or password, and a header named \<^verbatim>\<open>Authorization\<close>, when the port is not zero.
\<close>

lemma Validate_host:
  "ContainsAny (Host c) ''/:'' \<Longrightarrow> fst (Validate c) \<noteq> None"
  by (simp add: Validate_def)

lemma Validate_lone_credential:
  "Port c \<noteq> 0 \<Longrightarrow> (RpcUser c = []) \<noteq> (RpcPassword c = []) \<Longrightarrow> fst (Validate c) \<noteq> None"
  by (auto simp: Validate_def)

lemma Validate_Authorization:
  "Port c \<noteq> 0 \<Longrightarrow> CustomHeaders c = Some m \<Longrightarrow> ''Authorization'' \<in> fst ` set m
     \<Longrightarrow> fst (Validate c) \<noteq> None"
  using check_headers_key [of m] by (auto simp: Validate_def)

text \<open>
  Claim C2 says that validation fails whenever exactly one of user and password is
  set, and whenever a custom header is named \<^verbatim>\<open>Authorization\<close>, whatever the port.
  With \<^verbatim>\<open>Port == 0\<close> the switch stops at the arm that sets the default port: the
  two configs below are accepted, although the same configs with port 37128 are
  refused (lemmas \<open>Validate_lone_credential\<close> and \<open>Validate_Authorization\<close>).
\<close>

theorem Validate_port_zero_skips_checks:
  "fst (Validate \<lparr>Host = ''127.0.0.1'', Port = 0, CustomHeaders = None,
                  Transport = (None :: unit option), RpcUser = ''alice'', RpcPassword = []\<rparr>) = None
   \<and> fst (Validate \<lparr>Host = ''127.0.0.1'', Port = 0,
                  CustomHeaders = Some [(''Authorization'', ''Bearer x'')],
                  Transport = (None :: unit option), RpcUser = [], RpcPassword = []\<rparr>) = None
   \<and> fst (Validate \<lparr>Host = ''127.0.0.1'', Port = 37128, CustomHeaders = None,
                  Transport = (None :: unit option), RpcUser = ''alice'', RpcPassword = []\<rparr>)
       = Some (Errorf ''rpc password must not be empty if rpc user is set'')
   \<and> fst (Validate \<lparr>Host = ''127.0.0.1'', Port = 37128,
                  CustomHeaders = Some [(''Authorization'', ''Bearer x'')],
                  Transport = (None :: unit option), RpcUser = [], RpcPassword = []\<rparr>)
       = Some (Errorf ''custom header key must not be Authorization'')"
  by (simp add: Validate_def ContainsAny_def)

text \<open>
  When the switch reaches its last arm, the config has no custom headers, and the
  arm installs a fresh map with the Basic credential.
\<close>

lemma Validate_credentials:
  "credentials_arm c \<Longrightarrow>
     Validate c = (None, c\<lparr>CustomHeaders :=
        Some [(''Authorization'', ''Basic '' @ EncodeToString (RpcUser c @ '':'' @ RpcPassword c))]\<rparr>)"
  by (auto simp: Validate_def credentials_arm_def Let_def)

text \<open>
  Claim C3 says that a valid config with both user and password leaves validation
  with the entry \<^verbatim>\<open>Authorization\<close>, also when the caller supplied a map of custom
  headers or a zero port. The arm that writes the entry comes after the arms
  \<^verbatim>\<open>case c.Port == 0\<close> and \<^verbatim>\<open>case c.CustomHeaders != nil\<close>, so in both situations the
  config is accepted without the entry; with port 37128 and no custom headers the
  entry is written.
\<close>

theorem Validate_credentials_not_written:
  "Validate \<lparr>Host = ''127.0.0.1'', Port = 37128, CustomHeaders = Some [(''X-Trace'', ''1'')],
             Transport = (None :: unit option), RpcUser = ''alice'', RpcPassword = ''secret''\<rparr>
     = (None, \<lparr>Host = ''127.0.0.1'', Port = 37128, CustomHeaders = Some [(''X-Trace'', ''1'')],
               Transport = None, RpcUser = ''alice'', RpcPassword = ''secret''\<rparr>)
   \<and> Validate \<lparr>Host = ''127.0.0.1'', Port = 0, CustomHeaders = None,
             Transport = (None :: unit option), RpcUser = ''alice'', RpcPassword = ''secret''\<rparr>
     = (None, \<lparr>Host = ''127.0.0.1'', Port = 37128, CustomHeaders = None,
               Transport = None, RpcUser = ''alice'', RpcPassword = ''secret''\<rparr>)
   \<and> Validate \<lparr>Host = ''127.0.0.1'', Port = 37128, CustomHeaders = None,
             Transport = (None :: unit option), RpcUser = ''alice'', RpcPassword = ''secret''\<rparr>
     = (None, \<lparr>Host = ''127.0.0.1'', Port = 37128,
               CustomHeaders = Some [(''Authorization'', ''Basic YWxpY2U6c2VjcmV0'')],
               Transport = None, RpcUser = ''alice'', RpcPassword = ''secret''\<rparr>)"
  by (simp add: Validate_def ContainsAny_def b64_def encodeStd_def)

text \<open>
  Claim C9: \<open>Validate\<close> changes the config it is called on in two places only. On
  the arm \<^verbatim>\<open>case c.Port == 0\<close> it writes 37128 into \<open>Port\<close>; on the arm of the
  credentials it puts the entry \<^verbatim>\<open>Authorization\<close> into \<open>CustomHeaders\<close> (there the
  caller's map is nil, so the map is a fresh one); every other field, and both
  fields on every other path, are as before.
\<close>

theorem Validate_frame:
  "snd (Validate c) =
     c\<lparr>Port := (if port_default_arm c then 37128 else Port c),
       CustomHeaders :=
         (if credentials_arm c
          then Some [(''Authorization'', ''Basic '' @ EncodeToString (RpcUser c @ '':'' @ RpcPassword c))]
          else CustomHeaders c)\<rparr>"
  by (cases "CustomHeaders c") (auto simp: Validate_def port_default_arm_def credentials_arm_def Let_def)

theorem Validate_frame_witness:
  "snd (Validate \<lparr>Host = ''localhost'', Port = 0, CustomHeaders = Some [(''X-Trace'', ''1'')],
                  Transport = (None :: unit option), RpcUser = ''alice'', RpcPassword = ''secret''\<rparr>)
     = \<lparr>Host = ''localhost'', Port = 37128, CustomHeaders = Some [(''X-Trace'', ''1'')],
        Transport = None, RpcUser = ''alice'', RpcPassword = ''secret''\<rparr>
   \<and> snd (Validate \<lparr>Host = ''localhost'', Port = 8080, CustomHeaders = None,
                  Transport = (None :: unit option), RpcUser = ''alice'', RpcPassword = ''secret''\<rparr>)
     = \<lparr>Host = ''localhost'', Port = 8080,
        CustomHeaders = Some [(''Authorization'', ''Basic YWxpY2U6c2VjcmV0'')],
        Transport = None, RpcUser = ''alice'', RpcPassword = ''secret''\<rparr>"
  using Validate_frame [of "\<lparr>Host = ''localhost'', Port = 0, CustomHeaders = Some [(''X-Trace'', ''1'')],
                  Transport = (None :: unit option), RpcUser = ''alice'', RpcPassword = ''secret''\<rparr>"]
    Validate_frame [of "\<lparr>Host = ''localhost'', Port = 8080, CustomHeaders = None,
                  Transport = (None :: unit option), RpcUser = ''alice'', RpcPassword = ''secret''\<rparr>"]
  by (simp add: port_default_arm_def credentials_arm_def ContainsAny_def b64_def encodeStd_def)

section \<open>The pipeline\<close>

lemma URL_foldl_Header_Set: "URL (foldl (Header_Set lib) req hs) = URL req"
  by (induction hs arbitrary: req) (simp_all add: Header_Set_def)

text \<open>
  \<open>do\<close> is \<open>exchange\<close>, then the status check, then the decoding with the
  sentinel dropped.
\<close>

lemma do_exchange:
  "do lib dec unm c m wn inp out w =
     (case exchange lib c m wn inp w of
        (Inl err, w1) \<Rightarrow> ((Some err, out), w1)
      | (Inr resp, w2) \<Rightarrow>
          if StatusCode resp \<noteq> 200 then
            ((Some (Errorf (''http status '' @ format_int (StatusCode resp))), out), w2)
          else
            (case decodeClientResponse dec unm (Body resp) out of
               (Some err, out') \<Rightarrow>
                 if errors_Is_NullResult err then ((None, out'), w2) else ((Some err, out'), w2)
             | (None, out') \<Rightarrow> ((None, out'), w2)))"
  by (simp add: do_def exchange_def Let_def split: prod.splits sum.splits)

lemma encodeClientRequest_sent:
  "encodeClientRequest lib m inp w = (r, w1) \<Longrightarrow> sent w1 = sent w"
  by (auto simp: encodeClientRequest_def split: prod.splits sum.splits)

text \<open>
  A call hands at most one request to \<^verbatim>\<open>httpClient.Do\<close>, exactly one when there is
  a response, and its URL is the one that \<open>do\<close> formats.
\<close>

lemma exchange_sent:
  "exchange lib c m wn inp w = (Inr resp, w') \<Longrightarrow>
     \<exists>req. sent w' = sent w @ [req]
        \<and> URL req = ''http://'' @ host c @ '':'' @ format_int (port c) @ ''/'' @ wn"
  by (auto simp: exchange_def httpClient_Do_def http_NewRequest_def URL_foldl_Header_Set
        dest!: encodeClientRequest_sent split: prod.splits sum.splits option.splits)

lemma exchange_sent_any:
  "exchange lib c m wn inp w = (r, w') \<Longrightarrow>
     \<exists>rs. sent w' = sent w @ rs \<and> length rs \<le> 1
        \<and> list_all (\<lambda>req. URL req = ''http://'' @ host c @ '':'' @ format_int (port c) @ ''/'' @ wn) rs"
  by (auto simp: exchange_def httpClient_Do_def http_NewRequest_def URL_foldl_Header_Set
        dest!: encodeClientRequest_sent split: prod.splits sum.splits option.splits)

lemma do_world: "snd (do lib dec unm c m wn inp out w) = snd (exchange lib c m wn inp w)"
  by (simp add: do_exchange split: prod.splits sum.splits option.splits)

lemma do_world_eq:
  "do lib dec unm c m wn inp out w = (r, w') \<Longrightarrow> w' = snd (exchange lib c m wn inp w)"
  using do_world [of lib dec unm c m wn inp out w] by simp

lemma do_keeps_pointer:
  "\<exists>v'. snd (fst (do lib dec unm c m wn inp (Some v) w)) = Some v'"
  by (simp add: do_exchange decodeClientResponse_def json_Unmarshal_def
        split: prod.splits sum.splits option.splits)

lemma do_null_envelope:
  assumes "exchange lib c m wn inp w = (Inr resp, w')" and "StatusCode resp = 200"
    and "decode_envelope dec (Body resp) = Inr env" and "Result env = None" and "Error env = None"
  shows "do lib dec unm c m wn inp out w = ((None, out), w')"
  using assms by (simp add: do_exchange decodeClientResponse_def)

lemmas method_defs = GetStatus_def CreateWallet_def LoadWallet_def ListCoins_def ListUnspentCoins_def GetWalletInfo_def GetNewAddress_def Send_def Build_def Broadcast_def GetHistory_def ListKeys_def StartCoinJoin_def StartCoinJoinSweep_def StopCoinJoin_def Stop_def GetFeeRates_def ListWallets_def ExcludeFromCoinJoin_def RecoverWallet_def BuildUnsafeTransaction_def PayInCoinJoin_def ListPaymentsInCoinJoin_def CancelPaymentInCoinJoin_def CancelTransaction_def SpeedUpTransaction_def

lemma invoke_world:
  "snd (invoke lib dec us c call w)
     = snd (exchange lib c (call_method call) (call_wallet call) (call_params call) w)"
  by (cases call) (auto simp: method_defs split: prod.splits option.splits dest: do_world_eq)

lemma call_wallet_scoped:
  "call_wallet call = (if wallet_scoped call then wallet_name call else [])"
  by (cases call) simp_all

subsection \<open>The test double\<close>

lemma test_exchange:
  "exchange (test_lib status body) test_client m wn inp world0 =
     (Inr \<lparr>StatusCode = status, Body = body\<rparr>,
      \<lparr>sent = [\<lparr>ReqMethod = ''POST'', URL = ''http://127.0.0.1:37128/'' @ wn, Header = [],
                 ReqBody = m\<rparr>],
       outside = ()\<rparr>)"
  by (simp add: exchange_def encodeClientRequest_def http_NewRequest_def httpClient_Do_def
        test_lib_def test_client_def world0_def Method_String_def format_int_37128)

lemma test_decode_null:
  "decode_envelope test_codec null_body = Inr \<lparr>Version = ''2.0'', Result = None, Error = None\<rparr>"
  by (simp add: test_codec_def)

lemma test_decode_text_error:
  "decode_envelope test_codec text_error_body
     = Inr \<lparr>Version = ''2.0'', Result = Some ''true'', Error = Some text_error_raw\<rparr>"
  by (simp add: test_codec_def text_error_body_def null_body_def)

lemma test_decode_rpc_error:
  "decode_envelope test_codec rpc_error_body
     = Inr \<lparr>Version = ''2.0'', Result = None, Error = Some rpc_error_raw\<rparr>"
  by (simp add: test_codec_def rpc_error_body_def null_body_def text_error_body_def)

lemma test_unmarshal_rpc_error:
  "unmarshal_RPCError test_codec rpc_error_raw
     = Inr \<lparr>Code = - 32601, Message = ''Method not found'', Data = JNull\<rparr>"
  by (simp add: test_codec_def)

lemma test_unmarshal_text_error:
  "unmarshal_RPCError test_codec text_error_raw
     = Inl ''json: cannot unmarshal string into Go value of type wasabi.RPCError''"
  by (simp add: test_codec_def text_error_raw_def rpc_error_raw_def)

subsection \<open>The null result\<close>

text \<open>
  Claim C1 says that a method with a payload turns an envelope whose result and
  error are both null into an error for its caller. It does not: \<open>do\<close> drops the
  sentinel for every caller, and \<^verbatim>\<open>GetStatus\<close> returns its zero value and a nil
  error.
\<close>

theorem payload_null_result_counterexample:
  "has_payload CallGetStatus
   \<and> decode_envelope test_codec null_body = Inr \<lparr>Version = ''2.0'', Result = None, Error = None\<rparr>
   \<and> GetStatus (test_lib 200 null_body) test_codec test_unmarshalers test_client world0
     = ((GetStatusResponse_zero, None),
        \<lparr>sent = [\<lparr>ReqMethod = ''POST'', URL = ''http://127.0.0.1:37128/'', Header = [],
                   ReqBody = ''getstatus''\<rparr>],
         outside = ()\<rparr>)"
  by (simp add: test_decode_null GetStatus_def held_def MethodGetStatus_def do_exchange
        test_exchange decodeClientResponse_def)

text \<open>
  Claim C1 as the code has it: whatever the method, with or without a payload, a
  response with status 200 whose envelope has a null result and a null error makes
  the call succeed: the error is nil, and a method with a payload returns the zero
  value of its type.
\<close>

theorem null_envelope_is_success:
  assumes "exchange lib c (call_method call) (call_wallet call) (call_params call) w = (Inr resp, w')"
    and "StatusCode resp = 200"
    and "decode_envelope dec (Body resp) = Inr env"
    and "Result env = None" and "Error env = None"
  shows "invoke lib dec us c call w = ((zero_reply call, None), w')"
  using assms by (cases call) (simp_all add: method_defs do_null_envelope held_def)

theorem null_envelope_is_success_witness:
  "invoke (test_lib 200 null_body) test_codec test_unmarshalers test_client
      (CallCreateWallet ''savings'' ''pw'') world0
     = ((StringReply [], None),
        \<lparr>sent = [\<lparr>ReqMethod = ''POST'', URL = ''http://127.0.0.1:37128/'', Header = [],
                   ReqBody = ''createwallet''\<rparr>],
         outside = ()\<rparr>)
   \<and> invoke (test_lib 200 null_body) test_codec test_unmarshalers test_client CallStop world0
     = ((NoPayload, None),
        \<lparr>sent = [\<lparr>ReqMethod = ''POST'', URL = ''http://127.0.0.1:37128/'', Header = [],
                   ReqBody = ''stop''\<rparr>],
         outside = ()\<rparr>)"
proof -
  have r: "StatusCode \<lparr>StatusCode = 200, Body = null_body\<rparr> = 200" by simp
  have d: "decode_envelope test_codec (Body \<lparr>StatusCode = 200, Body = null_body\<rparr>)
             = Inr \<lparr>Version = ''2.0'', Result = None, Error = None\<rparr>"
    by (simp add: test_decode_null)
  have n: "Result \<lparr>Version = ''2.0'', Result = None, Error = None\<rparr> = None"
    "Error \<lparr>Version = ''2.0'', Result = None, Error = None\<rparr> = None"
    by simp_all
  have "invoke (test_lib 200 null_body) test_codec test_unmarshalers test_client
          (CallCreateWallet ''savings'' ''pw'') world0
        = ((zero_reply (CallCreateWallet ''savings'' ''pw''), None),
           \<lparr>sent = [\<lparr>ReqMethod = ''POST'',
                      URL = ''http://127.0.0.1:37128/'' @ call_wallet (CallCreateWallet ''savings'' ''pw''),
                      Header = [], ReqBody = call_method (CallCreateWallet ''savings'' ''pw'')\<rparr>],
            outside = ()\<rparr>)"
    by (rule null_envelope_is_success [OF test_exchange r d n])
  moreover have "invoke (test_lib 200 null_body) test_codec test_unmarshalers test_client CallStop world0
        = ((zero_reply CallStop, None),
           \<lparr>sent = [\<lparr>ReqMethod = ''POST'', URL = ''http://127.0.0.1:37128/'' @ call_wallet CallStop,
                      Header = [], ReqBody = call_method CallStop\<rparr>],
            outside = ()\<rparr>)"
    by (rule null_envelope_is_success [OF test_exchange r d n])
  ultimately show ?thesis
    by (simp add: MethodCreateWallet_def MethodStop_def)
qed

subsection \<open>The error member\<close>

text \<open>
  Claim C4: when the envelope of a response has a non-null error member, decoding
  yields an RPC error, the caller's target is left as it was, and the outcome is
  the same whatever decoding the result member would do; a call that received the
  response with status 200 returns that error.
\<close>

theorem error_member_wins:
  assumes "decode_envelope dec r = Inr env" and "Error env = Some raw"
  shows "\<exists>e. decodeClientResponse dec unm r reply = (Some (RPCErr e), reply)
            \<and> decodeClientResponse dec unm' r reply = (Some (RPCErr e), reply)
            \<and> (exchange lib c m wn inp w = (Inr resp, w') \<and> StatusCode resp = 200
                  \<and> Body resp = r
                \<longrightarrow> do lib dec unm c m wn inp reply w = ((Some (RPCErr e), reply), w'))"
proof (cases "unmarshal_RPCError dec raw")
  case (Inl msg)
  let ?e = "\<lparr>Code = E_SERVER, Message = raw, Data = JNull\<rparr>"
  have "decodeClientResponse dec u r reply = (Some (RPCErr ?e), reply)" for u :: "'a unmarshal"
    using assms Inl by (simp add: decodeClientResponse_def)
  then show ?thesis
    by (intro exI [of _ ?e]) (simp add: do_exchange)
next
  case (Inr jsonErr)
  have "decodeClientResponse dec u r reply = (Some (RPCErr jsonErr), reply)" for u :: "'a unmarshal"
    using assms Inr by (simp add: decodeClientResponse_def)
  then show ?thesis
    by (intro exI [of _ jsonErr]) (simp add: do_exchange)
qed

theorem error_member_wins_witness:
  "\<exists>e. decodeClientResponse test_codec (into_string test_unmarshalers) text_error_body (Some ''old'')
          = (Some (RPCErr e), Some ''old'')
      \<and> do (test_lib 200 text_error_body) test_codec (into_string test_unmarshalers) test_client
           MethodCreateWallet [] AnyNil (Some ''old'') world0
          = ((Some (RPCErr e), Some ''old''),
             \<lparr>sent = [\<lparr>ReqMethod = ''POST'', URL = ''http://127.0.0.1:37128/'', Header = [],
                        ReqBody = ''createwallet''\<rparr>],
              outside = ()\<rparr>)"
proof -
  let ?w = "\<lparr>sent = [\<lparr>ReqMethod = ''POST'', URL = ''http://127.0.0.1:37128/'', Header = [],
                       ReqBody = ''createwallet''\<rparr>],
             outside = ()\<rparr>"
  have e: "Error \<lparr>Version = ''2.0'', Result = Some ''true'', Error = Some text_error_raw\<rparr>
             = Some text_error_raw"
    by simp
  have x: "exchange (test_lib 200 text_error_body) test_client MethodCreateWallet [] AnyNil world0
             = (Inr \<lparr>StatusCode = 200, Body = text_error_body\<rparr>, ?w)"
    by (simp add: test_exchange MethodCreateWallet_def)
  from error_member_wins [OF test_decode_text_error e,
      where unm = "into_string test_unmarshalers" and unm' = "into_string test_unmarshalers"
        and reply = "Some ''old''" and lib = "test_lib 200 text_error_body" and c = test_client
        and m = MethodCreateWallet and wn = "[]" and inp = AnyNil and w = world0
        and resp = "\<lparr>StatusCode = 200, Body = text_error_body\<rparr>" and w' = ?w]
  show ?thesis
    by (simp add: x)
qed

text \<open>
  Claim C5: when the error member is present, the error returned is the structured
  error that the member decodes into, with its code, message and data; when the
  member does not decode, it is a fresh error with code -32000 whose message is the
  raw bytes of the member.
\<close>

theorem error_member_decoding:
  assumes "decode_envelope dec r = Inr env" and "Error env = Some raw"
  shows "fst (decodeClientResponse dec unm r reply) =
           Some (RPCErr (case unmarshal_RPCError dec raw of
                           Inl e \<Rightarrow> \<lparr>Code = - 32000, Message = raw, Data = JNull\<rparr>
                         | Inr jsonErr \<Rightarrow> jsonErr))"
  using assms by (simp add: decodeClientResponse_def E_SERVER_def split: sum.splits)

theorem error_member_decoding_witness:
  "fst (decodeClientResponse test_codec (into_string test_unmarshalers) text_error_body (Some []))
     = Some (RPCErr \<lparr>Code = - 32000, Message = text_error_raw, Data = JNull\<rparr>)
   \<and> fst (decodeClientResponse test_codec (into_string test_unmarshalers) rpc_error_body (Some []))
     = Some (RPCErr \<lparr>Code = - 32601, Message = ''Method not found'', Data = JNull\<rparr>)"
proof -
  have e1: "Error \<lparr>Version = ''2.0'', Result = Some ''true'', Error = Some text_error_raw\<rparr>
             = Some text_error_raw"
    by simp
  have e2: "Error \<lparr>Version = ''2.0'', Result = None, Error = Some rpc_error_raw\<rparr> = Some rpc_error_raw"
    by simp
  from error_member_decoding [OF test_decode_text_error e1,
      where unm = "into_string test_unmarshalers" and reply = "Some []"]
    error_member_decoding [OF test_decode_rpc_error e2,
      where unm = "into_string test_unmarshalers" and reply = "Some []"]
  show ?thesis
    by (simp add: test_unmarshal_text_error test_unmarshal_rpc_error)
qed

subsection \<open>The status check\<close>

text \<open>
  Claim C6: when \<^verbatim>\<open>httpClient.Do\<close> answers with a status other than 200, the call
  returns the error \<^verbatim>\<open>http status N\<close> with the decimal digits of the status it
  received (from which the status can be read back, lemma \<open>format_int_inj\<close>); the
  result does not depend on the decoders, and \<open>out\<close> is untouched, so the body is
  not decoded; and the call has handed exactly one request to \<^verbatim>\<open>httpClient.Do\<close>.
\<close>

theorem non_200_status:
  assumes "exchange lib c m wn inp w = (Inr resp, w')" and "StatusCode resp \<noteq> 200"
  shows "do lib dec unm c m wn inp out w =
           ((Some (Errorf (''http status '' @ format_int (StatusCode resp))), out), w')
         \<and> do lib dec' unm' c m wn inp out w = do lib dec unm c m wn inp out w
         \<and> (\<exists>req. sent w' = sent w @ [req])"
  using assms exchange_sent [OF assms(1)] by (auto simp: do_exchange)

theorem non_200_status_witness:
  "do (test_lib 404 ''Not Found'') test_codec (into_string test_unmarshalers) test_client
      MethodBroadcast ''savings'' (AnySlice [AnyString ''00'']) (Some []) world0
     = ((Some (Errorf ''http status 404''), Some []),
        \<lparr>sent = [\<lparr>ReqMethod = ''POST'', URL = ''http://127.0.0.1:37128/savings'', Header = [],
                   ReqBody = ''broadcast''\<rparr>],
         outside = ()\<rparr>)"
proof -
  have s: "StatusCode \<lparr>StatusCode = 404, Body = ''Not Found''\<rparr> \<noteq> 200" by simp
  have f: "format_int 404 = ''404''"
    by (simp add: format_int_def decimal_digit decimal_step digit_char_def)
  from non_200_status [OF test_exchange s,
      where dec = test_codec and unm = "into_string test_unmarshalers" and out = "Some []"
        and dec' = test_codec and unm' = "into_string test_unmarshalers"]
  show ?thesis
    by (simp add: f MethodBroadcast_def)
qed

subsection \<open>The default port and the URL\<close>

text \<open>
  Claim C7: \<open>NewClient\<close> on a config with host 127.0.0.1 and port 0 succeeds, the
  client has port 37128, and whatever call is made through that client, every
  request it hands to \<^verbatim>\<open>httpClient.Do\<close> (at most one) has the URL
  \<^verbatim>\<open>http://127.0.0.1:37128/\<close> followed by the wallet name for a method that addresses
  a wallet, and by nothing for the others.
\<close>

theorem default_port_url:
  "\<exists>cl. NewClient \<lparr>Host = ''127.0.0.1'', Port = 0, CustomHeaders = hs, Transport = tr,
                    RpcUser = u, RpcPassword = p\<rparr> = Inr cl
      \<and> host cl = ''127.0.0.1'' \<and> port cl = 37128
      \<and> (\<exists>rs. sent (snd (invoke lib dec us cl call w)) = sent w @ rs \<and> length rs \<le> 1
            \<and> list_all (\<lambda>req. URL req = ''http://127.0.0.1:37128/''
                                @ (if wallet_scoped call then wallet_name call else [])) rs)"
proof -
  let ?cl = "\<lparr>httpClient = (if tr = None then DefaultClient else \<lparr>ClientTransport = tr\<rparr>),
              host = ''127.0.0.1'', port = 37128, headers = hs\<rparr>"
  have n: "NewClient \<lparr>Host = ''127.0.0.1'', Port = 0, CustomHeaders = hs, Transport = tr,
                      RpcUser = u, RpcPassword = p\<rparr> = Inr ?cl"
    by (simp add: NewClient_def Validate_def ContainsAny_def)
  obtain r w' where x: "exchange lib ?cl (call_method call) (call_wallet call) (call_params call) w = (r, w')"
    by (cases "exchange lib ?cl (call_method call) (call_wallet call) (call_params call) w")
  from exchange_sent_any [OF x]
  have "\<exists>rs. sent w' = sent w @ rs \<and> length rs \<le> 1
          \<and> list_all (\<lambda>req. URL req = ''http://127.0.0.1:37128/''
                              @ (if wallet_scoped call then wallet_name call else [])) rs"
    by (simp add: format_int_37128 call_wallet_scoped [symmetric])
  moreover have "snd (invoke lib dec us ?cl call w) = w'"
    by (simp add: invoke_world x)
  ultimately show ?thesis using n by simp
qed

theorem default_port_url_witness:
  "NewClient \<lparr>Host = ''127.0.0.1'', Port = 0, CustomHeaders = None,
              Transport = (None :: unit option), RpcUser = [], RpcPassword = []\<rparr> = Inr test_client
   \<and> (\<exists>rs. sent (snd (invoke (test_lib 200 null_body) test_codec test_unmarshalers test_client
                        (CallListCoins ''savings'') world0)) = sent world0 @ rs
          \<and> length rs \<le> 1
          \<and> list_all (\<lambda>req. URL req = ''http://127.0.0.1:37128/savings'') rs)
   \<and> sent (snd (invoke (test_lib 200 null_body) test_codec test_unmarshalers test_client
                  (CallListCoins ''savings'') world0))
       = [\<lparr>ReqMethod = ''POST'', URL = ''http://127.0.0.1:37128/savings'', Header = [],
           ReqBody = ''listcoins''\<rparr>]
   \<and> sent (snd (invoke (test_lib 200 null_body) test_codec test_unmarshalers test_client
                  (CallLoadWallet ''savings'') world0))
       = [\<lparr>ReqMethod = ''POST'', URL = ''http://127.0.0.1:37128/'', Header = [],
           ReqBody = ''loadwallet''\<rparr>]"
proof -
  let ?cfg = "\<lparr>Host = ''127.0.0.1'', Port = 0, CustomHeaders = None,
               Transport = (None :: unit option), RpcUser = [], RpcPassword = []\<rparr>"
  have n: "NewClient ?cfg = Inr test_client"
    by (simp add: NewClient_def Validate_def ContainsAny_def test_client_def)
  from default_port_url [where hs = None and tr = "None :: unit option" and u = "[]" and p = "[]"
      and lib = "test_lib 200 null_body" and dec = test_codec and us = test_unmarshalers
      and call = "CallListCoins ''savings''" and w = world0]
  obtain cl where a: "NewClient ?cfg = Inr cl"
    and b: "\<exists>rs. sent (snd (invoke (test_lib 200 null_body) test_codec test_unmarshalers cl
                        (CallListCoins ''savings'') world0)) = sent world0 @ rs
          \<and> length rs \<le> 1
          \<and> list_all (\<lambda>req. URL req = ''http://127.0.0.1:37128/''
                @ (if wallet_scoped (CallListCoins ''savings'')
                   then wallet_name (CallListCoins ''savings'') else [])) rs"
    by blast
  from a n have "cl = test_client" by simp
  with b have c: "\<exists>rs. sent (snd (invoke (test_lib 200 null_body) test_codec test_unmarshalers
                        test_client (CallListCoins ''savings'') world0)) = sent world0 @ rs
          \<and> length rs \<le> 1
          \<and> list_all (\<lambda>req. URL req = ''http://127.0.0.1:37128/savings'') rs"
    by simp
  have d: "sent (snd (invoke (test_lib 200 null_body) test_codec test_unmarshalers test_client
                  (CallListCoins ''savings'') world0))
       = [\<lparr>ReqMethod = ''POST'', URL = ''http://127.0.0.1:37128/savings'', Header = [],
           ReqBody = ''listcoins''\<rparr>]"
    by (simp only: invoke_world call_method.simps call_wallet.simps call_params.simps test_exchange)
       (simp add: MethodListCoins_def)
  have e: "sent (snd (invoke (test_lib 200 null_body) test_codec test_unmarshalers test_client
                  (CallLoadWallet ''savings'') world0))
       = [\<lparr>ReqMethod = ''POST'', URL = ''http://127.0.0.1:37128/'', Header = [],
           ReqBody = ''loadwallet''\<rparr>]"
    by (simp only: invoke_world call_method.simps call_wallet.simps call_params.simps test_exchange)
       (simp add: MethodLoadWallet_def)
  from n c d e show ?thesis by (intro conjI)
qed

subsection \<open>What comes back with an error\<close>

text \<open>
  Claim C10 says that every method with a payload returns the zero value of its
  result type beside a non-nil error. \<^verbatim>\<open>GetFeeRates\<close> returns the composite literal
  \<^verbatim>\<open>GetFeeRatesResponse{}\<close>, an empty map, where the zero value of the map type is
  the nil map.
\<close>

theorem GetFeeRates_error_counterexample:
  "has_payload CallGetFeeRates
   \<and> snd (fst (invoke (test_lib 500 []) test_codec test_unmarshalers test_client CallGetFeeRates world0))
     = Some (Errorf ''http status 500'')
   \<and> fst (fst (invoke (test_lib 500 []) test_codec test_unmarshalers test_client CallGetFeeRates world0))
     = FeeRatesReply (Some [])
   \<and> fst (fst (invoke (test_lib 500 []) test_codec test_unmarshalers test_client CallGetFeeRates world0))
     \<noteq> zero_reply CallGetFeeRates"
proof -
  have f: "format_int 500 = ''500''"
    by (simp add: format_int_def decimal_digit decimal_step digit_char_def)
  show ?thesis
    by (simp add: GetFeeRates_def do_exchange test_exchange f)
qed

text \<open>
  Claim C10 as the code has it: beside a non-nil error, every method with a payload
  returns the zero value of its result type (the empty struct, the empty string,
  the nil slice), except \<^verbatim>\<open>GetFeeRates\<close>, which returns an empty map that is not
  nil; so no caller sees a partly decoded result together with an error.
\<close>

theorem result_beside_error:
  assumes "snd (fst (invoke lib dec us c call w)) \<noteq> None"
  shows "fst (fst (invoke lib dec us c call w)) =
           (if call = CallGetFeeRates then FeeRatesReply (Some []) else zero_reply call)"
  using assms by (cases call) (simp_all add: method_defs split: prod.splits option.splits)

theorem result_beside_error_witness:
  "snd (fst (invoke (test_lib 200 ''{'') test_codec test_unmarshalers test_client
               (CallSend ''savings'' None None 2 ''pw'') world0))
     = Some (StdError ''unexpected end of JSON input'')
   \<and> fst (fst (invoke (test_lib 200 ''{'') test_codec test_unmarshalers test_client
               (CallSend ''savings'' None None 2 ''pw'') world0))
     = SendReply SendResponse_zero"
proof -
  have e: "snd (fst (invoke (test_lib 200 ''{'') test_codec test_unmarshalers test_client
               (CallSend ''savings'' None None 2 ''pw'') world0))
     = Some (StdError ''unexpected end of JSON input'')"
    by (simp add: Send_def do_exchange test_exchange decodeClientResponse_def test_codec_def
          null_body_def text_error_body_def rpc_error_body_def)
  then have "snd (fst (invoke (test_lib 200 ''{'') test_codec test_unmarshalers test_client
               (CallSend ''savings'' None None 2 ''pw'') world0)) \<noteq> None"
    by simp
  from result_beside_error [OF this] e show ?thesis by simp
qed

end
